theory Spec2Isabelle
  imports Main "HOL-Library.Log_Nat"
begin

section \<open>JavaScript numbers\<close>

text \<open>
  The program computes with JavaScript numbers (IEEE 754 binary64).  A number is a
  rational that a double can hold, one of the two infinities, or NaN.  The sign of zero
  is not tracked: the program never divides by a computed zero of negative sign and
  never inspects the sign of a zero.  Every arithmetic operation computes the exact
  rational result and rounds it with \<open>fl\<close> (round to nearest, ties to even,
  53 bits of precision, gradual underflow below \<open>2 powi (- 1022)\<close>, overflow
  to infinity).
\<close>

datatype number = Fin rat | PosInf | NegInf | NaN

definition ilog2 :: "rat \<Rightarrow> int" where
  \<comment> \<open>for \<open>0 < x\<close>: the exponent \<open>e\<close> with \<open>2 powi e \<le> x < 2 powi (e + 1)\<close>\<close>
  "ilog2 x = (if 1 \<le> x then bitlen \<lfloor>x\<rfloor> - 1 else - bitlen (\<lceil>1 / x\<rceil> - 1))"

definition round_even :: "rat \<Rightarrow> int" where
  "round_even x = (let f = \<lfloor>x\<rfloor>; d = x - of_int f in
     if d < 1 / 2 then f else if 1 / 2 < d then f + 1 else if even f then f else f + 1)"

definition fl_pos :: "rat \<Rightarrow> number" where
  \<comment> \<open>the double nearest to a positive rational\<close>
  "fl_pos x = (let e = ilog2 x; u = max e (- 1022) - 52;
                   m = round_even (x / 2 powi u)
               in if 1024 \<le> e \<or> (e = 1023 \<and> m = 2 ^ 53) then PosInf
                  else Fin (of_int m * 2 powi u))"

fun neg :: "number \<Rightarrow> number" where
  "neg (Fin x) = Fin (- x)"
| "neg PosInf = NegInf"
| "neg NegInf = PosInf"
| "neg NaN = NaN"

definition fl :: "rat \<Rightarrow> number" where
  "fl x = (if x = 0 then Fin 0 else if 0 < x then fl_pos x else neg (fl_pos (- x)))"

fun num_add :: "number \<Rightarrow> number \<Rightarrow> number" where
  "num_add (Fin a) (Fin b) = fl (a + b)"
| "num_add NaN y = NaN"
| "num_add x NaN = NaN"
| "num_add PosInf NegInf = NaN"
| "num_add NegInf PosInf = NaN"
| "num_add PosInf y = PosInf"
| "num_add NegInf y = NegInf"
| "num_add (Fin a) y = y"

definition num_sub :: "number \<Rightarrow> number \<Rightarrow> number" where
  "num_sub x y = num_add x (neg y)"

fun num_mul :: "number \<Rightarrow> number \<Rightarrow> number" where
  "num_mul (Fin a) (Fin b) = fl (a * b)"
| "num_mul NaN y = NaN"
| "num_mul x NaN = NaN"
| "num_mul (Fin a) y = (if a = 0 then NaN else if 0 < a then y else neg y)"
| "num_mul x (Fin b) = (if b = 0 then NaN else if 0 < b then x else neg x)"
| "num_mul PosInf y = y"
| "num_mul NegInf y = neg y"

fun num_div :: "number \<Rightarrow> number \<Rightarrow> number" where
  "num_div (Fin a) (Fin b) =
     (if b = 0 then (if a = 0 then NaN else if 0 < a then PosInf else NegInf)
      else fl (a / b))"
| "num_div NaN y = NaN"
| "num_div x NaN = NaN"
| "num_div (Fin a) y = Fin 0"
| "num_div x (Fin b) = (if 0 \<le> b then x else neg x)"
| "num_div PosInf y = NaN"
| "num_div NegInf y = NaN"

fun num_le :: "number \<Rightarrow> number \<Rightarrow> bool" where
  "num_le (Fin a) (Fin b) = (a \<le> b)"
| "num_le NaN y = False"
| "num_le x NaN = False"
| "num_le NegInf y = True"
| "num_le x PosInf = True"
| "num_le PosInf y = False"
| "num_le (Fin a) NegInf = False"

definition num_lt :: "number \<Rightarrow> number \<Rightarrow> bool" where
  "num_lt x y = (num_le x y \<and> x \<noteq> y)"

fun isFinite :: "number \<Rightarrow> bool" where
  "isFinite (Fin x) = True"
| "isFinite x = False"

fun Math_round :: "number \<Rightarrow> number" where
  "Math_round (Fin x) = Fin (of_int \<lfloor>x + 1 / 2\<rfloor>)"
| "Math_round x = x"

fun Math_floor :: "number \<Rightarrow> number" where
  "Math_floor (Fin x) = Fin (of_int \<lfloor>x\<rfloor>)"
| "Math_floor x = x"

definition Math_max :: "number \<Rightarrow> number \<Rightarrow> number" where
  "Math_max x y = (if x = NaN \<or> y = NaN then NaN else if num_le x y then y else x)"

definition Math_min :: "number \<Rightarrow> number \<Rightarrow> number" where
  "Math_min x y = (if x = NaN \<or> y = NaN then NaN else if num_le x y then x else y)"

fun toFixed2 :: "number \<Rightarrow> number" where
  \<comment> \<open>\<open>Number(x.toFixed(2))\<close>: the decimal with two fraction digits nearest to \<open>x\<close>
      (the larger one on a tie), read back as a number; from \<open>10 ^ 21\<close> on, and for
      an infinity or NaN, \<open>toFixed\<close> prints the number itself\<close>
  "toFixed2 (Fin x) =
     (if 10 ^ 21 \<le> \<bar>x\<bar> then Fin x
      else if x < 0 then neg (fl (of_int \<lfloor>- x * 100 + 1 / 2\<rfloor> / 100))
      else fl (of_int \<lfloor>x * 100 + 1 / 2\<rfloor> / 100))"
| "toFixed2 x = x"

section \<open>Strings\<close>

text \<open>
  A string is a list of code units; the model has the code units below 256.  The white
  space class \<open>\s\<close> of a regular expression holds, in that range, the characters
  9 to 13, 32 and 160.
\<close>

definition isDigit :: "char \<Rightarrow> bool" where
  "isDigit c = (c \<in> set ''0123456789'')"

definition isSpace :: "char \<Rightarrow> bool" where
  "isSpace c = (of_char c \<in> {9, 10, 11, 12, 13, 32, 160 :: nat})"

definition digit_val :: "char \<Rightarrow> nat" where
  "digit_val c = of_char c - 48"

definition dec :: "string \<Rightarrow> nat" where
  \<comment> \<open>the value of a string of decimal digits\<close>
  "dec ds = foldl (\<lambda>n c. 10 * n + digit_val c) 0 ds"

definition NumberOfDigits :: "string \<Rightarrow> number" where
  \<comment> \<open>\<open>Number(s)\<close> for a non-empty string of decimal digits\<close>
  "NumberOfDigits ds = fl (of_nat (dec ds))"

definition toLowerCase_char :: "char \<Rightarrow> char" where
  \<comment> \<open>\<open>toLowerCase\<close> on one character: the letters A to Z change; no other
      character becomes a letter a to z\<close>
  "toLowerCase_char c =
     (case map_of (zip ''ABCDEFGHIJKLMNOPQRSTUVWXYZ'' ''abcdefghijklmnopqrstuvwxyz'') c of
        Some l \<Rightarrow> l
      | None \<Rightarrow> c)"

fun ToString_nat :: "nat \<Rightarrow> string" where
  \<comment> \<open>a natural number in a template literal: its decimal digits\<close>
  "ToString_nat n =
     (if n < 10 then [''0123456789'' ! n]
      else ToString_nat (n div 10) @ [''0123456789'' ! (n mod 10)])"

declare ToString_nat.simps [simp del]

definition StringToNumber :: "(string \<Rightarrow> number) \<Rightarrow> string \<Rightarrow> number" where
  \<comment> \<open>\<open>Number(s)\<close> on a string.  A string of decimal digits denotes its value; the
      rest of the grammar (white space, signs, fractions, exponents, other radices,
      \<open>Infinity\<close>; NaN for everything else) belongs to the platform and is the
      parameter \<open>sn\<close>.\<close>
  "StringToNumber sn s = (if s \<noteq> [] \<and> list_all isDigit s then NumberOfDigits s else sn s)"

section \<open>Time signatures\<close>

record TimeSignature =
  numerator :: number
  denominator :: number
  quarterBeatsPerMeasure :: number
  eighthsPerMeasure :: number

definition timeSig_match :: "string \<Rightarrow> (string \<times> string) option" where
  \<comment> \<open>\<open>timeSig.match(/^(\d+)\s*\/\s*(\d+)$/)\<close>: the two groups.  The three character
      classes are disjoint and each repetition is followed by a character outside its
      class, so the greedy match is the only one.\<close>
  "timeSig_match s =
     (let a = takeWhile isDigit s;
          r1 = dropWhile isSpace (dropWhile isDigit s)
      in case r1 of
           [] \<Rightarrow> None
         | c # r2 \<Rightarrow>
             if a = [] \<or> c \<noteq> CHR ''/'' then None
             else let r3 = dropWhile isSpace r2;
                      b = takeWhile isDigit r3
                  in if b \<noteq> [] \<and> dropWhile isDigit r3 = [] then Some (a, b) else None)"

definition parseTimeSignature :: "string \<Rightarrow> TimeSignature" where
  "parseTimeSignature timeSig =
     (case timeSig_match timeSig of
        None \<Rightarrow> \<lparr>numerator = Fin 4, denominator = Fin 4,
                 quarterBeatsPerMeasure = Fin 4, eighthsPerMeasure = Fin 8\<rparr>
      | Some (g1, g2) \<Rightarrow>
          let n = NumberOfDigits g1;
              d = NumberOfDigits g2;
              q = toFixed2 (num_div (num_mul n (Fin 4)) d);
              e = Math_round (num_mul q (Fin 2))
          in \<lparr>numerator = n, denominator = d,
              quarterBeatsPerMeasure = q, eighthsPerMeasure = e\<rparr>)"


section \<open>Pitch heights\<close>

record Pitch =
  midi :: number
  octave :: number
  letter :: string

definition baseOffsets :: "string \<Rightarrow> rat option" where
  "baseOffsets = map_of [(''c'', 0), (''d'', 2), (''e'', 4), (''f'', 5), (''g'', 7), (''a'', 9), (''b'', 11)]"

definition accidentalOffset :: "string \<Rightarrow> rat" where
  "accidentalOffset accidentals =
     (if accidentals = ''#'' then 1
      else if accidentals = ''##'' then 2
      else if accidentals = ''b'' then - 1
      else if accidentals = ''bb'' then - 2
      else 0)"

definition height :: "number \<Rightarrow> rat \<Rightarrow> rat \<Rightarrow> number" where
  \<comment> \<open>\<open>(octave + 1) * 12 + base + accidentalOffset\<close>\<close>
  "height oct base acc =
     num_add (num_add (num_mul (num_add oct (Fin 1)) (Fin 12)) (Fin base)) (Fin acc)"

definition isAccidental :: "char \<Rightarrow> bool" where
  \<comment> \<open>the class \<open>[#b]\<close> under the flag \<open>i\<close>\<close>
  "isAccidental c = (c \<in> set ''#bB'')"

definition pitch_match :: "string \<Rightarrow> (char \<times> string \<times> string) option" where
  \<comment> \<open>\<open>pitch.match(/^([A-G])([#b]*)(\d+)$/i)\<close>: the three groups\<close>
  "pitch_match s =
     (case s of
        [] \<Rightarrow> None
      | l # r \<Rightarrow>
          if toLowerCase_char l \<in> set ''abcdefg'' then
            let accidentals = takeWhile isAccidental r;
                ds = dropWhile isAccidental r
            in if ds \<noteq> [] \<and> list_all isDigit ds then Some (l, accidentals, ds) else None
          else None)"

definition parsePitch :: "string \<Rightarrow> Pitch option" where
  "parsePitch pitch =
     (case pitch_match pitch of
        None \<Rightarrow> None
      | Some (l, accidentals, ds) \<Rightarrow>
          let lt = [toLowerCase_char l];
              oct = NumberOfDigits ds;
              base = (case baseOffsets lt of Some b \<Rightarrow> b | None \<Rightarrow> 0)
          in Some \<lparr>midi = height oct base (accidentalOffset accidentals),
                    octave = oct, letter = lt\<rparr>)"

definition split_slash :: "string \<Rightarrow> string \<times> string option" where
  \<comment> \<open>the first two elements of \<open>noteKey.split('/')\<close>; the second is absent when the
      string has no slash\<close>
  "split_slash s =
     (let a = takeWhile (\<lambda>c. c \<noteq> CHR ''/'') s in
      case dropWhile (\<lambda>c. c \<noteq> CHR ''/'') s of
        [] \<Rightarrow> (a, None)
      | c # r \<Rightarrow> (a, Some (takeWhile (\<lambda>c. c \<noteq> CHR ''/'') r)))"

definition noteToMidi :: "(string \<Rightarrow> number) \<Rightarrow> string \<Rightarrow> number" where
  "noteToMidi sn noteKey =
     (let (rawNote, octaveStr) = split_slash noteKey;
          oct = (case octaveStr of None \<Rightarrow> NaN | Some t \<Rightarrow> StringToNumber sn t)
      in case rawNote of
           [] \<Rightarrow> Fin 60
         | c # accidentals \<Rightarrow>
             if oct = NaN then Fin 60
             else let base = (case baseOffsets [toLowerCase_char c] of Some b \<Rightarrow> b | None \<Rightarrow> 0)
                  in height oct base (accidentalOffset accidentals))"


section \<open>The measure generator\<close>

datatype Duration = Dq | D8 | Dh

record PoolEntry =
  duration :: Duration
  beats :: rat
  eighths :: rat

definition durationPool :: "PoolEntry list" where
  "durationPool =
     [\<lparr>duration = Dq, beats = 1, eighths = 2\<rparr>,
      \<lparr>duration = D8, beats = 1 / 2, eighths = 1\<rparr>,
      \<lparr>duration = Dh, beats = 2, eighths = 4\<rparr>]"

text \<open>
  In a \<open>NoteSpec\<close> the accidental is a string, \<open>null\<close> or absent; the program
  treats \<open>null\<close> and an absent accidental alike (it tests \<open>note.accidental &&\<close> and
  \<open>n.accidental ?? null\<close>), and both are \<open>None\<close> here.  \<open>isRest\<close> is a
  boolean; an absent flag reads as false.
\<close>

record NoteSpec =
  key :: string
  accidental :: "string option"
  duration :: Duration
  isRest :: bool

text \<open>
  The key manager is the notation library's; the program constructs one for the key
  (\<open>new KeyManager(key)\<close>, which throws for a key the library does not know) and asks it
  for the note of a letter (\<open>keyManager.selectNote(letter)\<close>).  Both are parameters: the
  manager has a state of some type \<open>'k\<close>, which a selection may change.
  \<open>Math.random()\<close> is a parameter too: call number \<open>n\<close> returns
  \<open>(random n mod 2 ^ 53) / 2 ^ 53\<close>, a double at least 0 and below 1.
\<close>

record Selection =
  sel_note :: string
  sel_accidental :: "string option"

record 'k Env =
  random :: "nat \<Rightarrow> nat"
  newKeyManager :: "string \<Rightarrow> 'k option"
  selectNote :: "'k \<Rightarrow> string \<Rightarrow> Selection \<times> 'k"
  strnum :: "string \<Rightarrow> number"

record 'k World =
  draws :: nat
  manager :: 'k

definition Math_random :: "'k Env \<Rightarrow> 'k World \<Rightarrow> number \<times> 'k World" where
  "Math_random env w =
     (Fin (of_nat (random env (draws w) mod 2 ^ 53) / 2 ^ 53), w\<lparr>draws := Suc (draws w)\<rparr>)"

definition randomChoice :: "'k Env \<Rightarrow> 'a list \<Rightarrow> 'k World \<Rightarrow> 'a \<times> 'k World" where
  \<comment> \<open>\<open>items[Math.floor(Math.random() * items.length)]\<close>.  The program calls it on
      lists that are not empty; there the index is in range and the last branch is never
      taken (lemma \<open>randomChoice_index\<close>).\<close>
  "randomChoice env items w =
     (let (u, w') = Math_random env w in
      case Math_floor (num_mul u (Fin (of_nat (length items)))) of
        Fin i \<Rightarrow> (items ! nat \<lfloor>i\<rfloor>, w')
      | _ \<Rightarrow> (last items, w'))"

fun weightedLoop :: "number \<Rightarrow> number \<Rightarrow> 'a list \<Rightarrow> number list \<Rightarrow> 'a option" where
  \<comment> \<open>the loop of \<open>weightedChoice\<close>; a weight missing from the array reads as
      \<open>undefined\<close> and adds up to NaN\<close>
  "weightedLoop r acc [] ws = None"
| "weightedLoop r acc (x # xs) ws =
     (let acc' = num_add acc (case ws of [] \<Rightarrow> NaN | v # vs \<Rightarrow> v) in
      if num_le r acc' then Some x else weightedLoop r acc' xs (tl ws))"

definition weightedChoice ::
  "'k Env \<Rightarrow> 'a list \<Rightarrow> number list \<Rightarrow> 'k World \<Rightarrow> 'a \<times> 'k World" where
  "weightedChoice env items weights w =
     (let total = foldl num_add (Fin 0) weights;
          (u, w') = Math_random env w;
          r = num_mul u total
      in case weightedLoop r (Fin 0) items weights of
           Some x \<Rightarrow> (x, w')
         | None \<Rightarrow> (last items, w'))"

record Settings =
  lowestMidi :: number
  highestMidi :: number
  validOctaves :: "nat list"
  densityRatio :: number
  restChance :: number

definition baseNotes :: "string list" where
  "baseNotes = [''c'', ''d'', ''e'', ''f'', ''g'', ''a'', ''b'']"

definition weight :: "number \<Rightarrow> PoolEntry \<Rightarrow> number" where
  "weight ratio d =
     (let shorterBoost = (if eighths d \<le> 1 then num_add (Fin 1) (num_mul ratio (Fin 2)) else Fin 1);
          longerBoost = (if 4 \<le> eighths d
                         then num_add (Fin 1) (num_mul (num_sub (Fin 1) ratio) (Fin 2)) else Fin 1);
          midBoost = (if eighths d = 2 then num_add (Fin 1) (num_mul ratio (Fin (1 / 2))) else Fin 1)
      in num_mul (num_mul (num_mul (Fin 1) shorterBoost) longerBoost) midBoost)"

definition inRange :: "Settings \<Rightarrow> number \<Rightarrow> bool" where
  \<comment> \<open>\<open>midi >= lowestMidi && midi <= highestMidi\<close>\<close>
  "inRange cf m = (num_le (lowestMidi cf) m \<and> num_le m (highestMidi cf))"

definition noteKey :: "Selection \<Rightarrow> nat \<Rightarrow> string" where
  \<comment> \<open>the template \<open>${selection.note}/${octave}\<close>\<close>
  "noteKey sel oct = sel_note sel @ ''/'' @ ToString_nat oct"

definition select :: "'k Env \<Rightarrow> string \<Rightarrow> 'k World \<Rightarrow> Selection \<times> 'k World" where
  \<comment> \<open>\<open>keyManager.selectNote(letter)\<close> on the manager of the world\<close>
  "select env lt w =
     (let (sel, k) = selectNote env (manager w) lt in (sel, w\<lparr>manager := k\<rparr>))"

fun attempt ::
  "'k Env \<Rightarrow> Settings \<Rightarrow> nat \<Rightarrow> nat \<times> Selection \<Rightarrow> 'k World \<Rightarrow> bool \<times> (nat \<times> Selection) \<times> 'k World" where
  \<comment> \<open>\<open>while (!noteGenerated && attempts < 50)\<close>; the third argument counts the
      attempts that remain, the fourth holds \<open>octave\<close> and \<open>selection\<close>\<close>
  "attempt env cf 0 cur w = (False, cur, w)"
| "attempt env cf (Suc n) cur w =
     (let (oct, w1) = randomChoice env (validOctaves cf) w;
          (lt, w2) = randomChoice env baseNotes w1;
          (sel, w3) = select env lt w2
      in if inRange cf (noteToMidi (strnum env) (noteKey sel oct)) then (True, (oct, sel), w3)
         else attempt env cf n (oct, sel) w3)"

fun scanLetters ::
  "'k Env \<Rightarrow> Settings \<Rightarrow> nat \<Rightarrow> string list \<Rightarrow> 'k World \<Rightarrow> Selection option \<times> 'k World" where
  \<comment> \<open>\<open>for (const testLetter of baseNotes)\<close>, left at the first note in range\<close>
  "scanLetters env cf oct [] w = (None, w)"
| "scanLetters env cf oct (lt # lts) w =
     (let (sel, w1) = select env lt w in
      if inRange cf (noteToMidi (strnum env) (noteKey sel oct)) then (Some sel, w1)
      else scanLetters env cf oct lts w1)"

fun scanOctaves ::
  "'k Env \<Rightarrow> Settings \<Rightarrow> nat list \<Rightarrow> 'k World \<Rightarrow> (nat \<times> Selection) option \<times> 'k World" where
  \<comment> \<open>\<open>for (const testOctave of validOctaves)\<close>, left once a note is found\<close>
  "scanOctaves env cf [] w = (None, w)"
| "scanOctaves env cf (oct # octs) w =
     (case scanLetters env cf oct baseNotes w of
        (Some sel, w1) \<Rightarrow> (Some (oct, sel), w1)
      | (None, w1) \<Rightarrow> scanOctaves env cf octs w1)"

definition pickNote :: "'k Env \<Rightarrow> Settings \<Rightarrow> 'k World \<Rightarrow> (nat \<times> Selection) \<times> 'k World" where
  \<comment> \<open>the note of one event: up to 50 random attempts, then the scan of every octave
      and letter, then the middle octave with the first letter\<close>
  "pickNote env cf w =
     (let (sel0, w0) = select env (baseNotes ! 0) w;
          (noteGenerated, cur, w1) = attempt env cf 50 (validOctaves cf ! 0, sel0) w0
      in if noteGenerated then (cur, w1)
         else case scanOctaves env cf (validOctaves cf) w1 of
                (Some found, w2) \<Rightarrow> (found, w2)
              | (None, w2) \<Rightarrow>
                  let (sel, w3) = select env (baseNotes ! 0) w2
                  in ((validOctaves cf ! (length (validOctaves cf) div 2), sel), w3))"

definition makeEvent ::
  "'k Env \<Rightarrow> Settings \<Rightarrow> PoolEntry list \<Rightarrow> 'k World \<Rightarrow> (PoolEntry \<times> NoteSpec) \<times> 'k World" where
  \<comment> \<open>one round of the loop over a measure, from the weights to the event pushed\<close>
  "makeEvent env cf allowedDurations w =
     (let weights = map (weight (densityRatio cf)) allowedDurations;
          (choice, w1) = weightedChoice env allowedDurations weights w;
          ((oct, sel), w2) = pickNote env cf w1;
          (u, w3) = Math_random env w2;
          insertRest = num_lt u (restChance cf)
      in ((choice, \<lparr>key = noteKey sel oct, accidental = sel_accidental sel,
                     duration = PoolEntry.duration choice, isRest = insertRest\<rparr>), w3))"


lemma weightedLoop_in_set: "weightedLoop r acc items ws = Some x \<Longrightarrow> x \<in> set items"
  by (induction items arbitrary: acc ws) (auto simp: Let_def split: if_splits)

lemma weightedChoice_in_set:
  "items \<noteq> [] \<Longrightarrow> fst (weightedChoice env items ws w) \<in> set items"
  by (auto simp: weightedChoice_def Let_def split: prod.splits option.splits
           dest: weightedLoop_in_set)

lemma durationPool_eighths: "d \<in> set durationPool \<Longrightarrow> 1 \<le> eighths d"
  by (auto simp: durationPool_def)

lemma makeEvent_choice:
  "allowed \<noteq> [] \<Longrightarrow> fst (fst (makeEvent env cf allowed w)) \<in> set allowed"
  using weightedChoice_in_set[of allowed env "map (weight (densityRatio cf)) allowed" w]
  by (auto simp: makeEvent_def Let_def split: prod.splits)

lemma fill_decreases:
  assumes "filter (\<lambda>d. eighths d \<le> e) durationPool \<noteq> []"
    and "(xb, y) = makeEvent env cf (filter (\<lambda>d. eighths d \<le> e) durationPool) w"
    and "(choice, event) = xb"
  shows "\<lceil>e - eighths choice\<rceil> < \<lceil>e\<rceil>"
proof -
  have "choice = fst (fst (makeEvent env cf (filter (\<lambda>d. eighths d \<le> e) durationPool) w))"
    using assms(2,3) by (metis fst_conv)
  then have "choice \<in> set (filter (\<lambda>d. eighths d \<le> e) durationPool)"
    using makeEvent_choice[OF assms(1), of env cf w] by simp
  then have "1 \<le> eighths choice" using durationPool_eighths by simp
  then have "e - eighths choice \<le> e - 1" by simp
  then have "\<lceil>e - eighths choice\<rceil> \<le> \<lceil>e - 1\<rceil>" by (rule ceiling_mono)
  then show ?thesis by simp
qed

function fill ::
  "'k Env \<Rightarrow> Settings \<Rightarrow> rat \<Rightarrow> NoteSpec list \<Rightarrow> 'k World \<Rightarrow> NoteSpec list \<times> 'k World" where
  \<comment> \<open>\<open>while (eighthsLeft > 0)\<close>, with the notes of the measure so far\<close>
  "fill env cf eighthsLeft notes w =
     (if eighthsLeft \<le> 0 then (notes, w)
      else let allowedDurations = filter (\<lambda>d. eighths d \<le> eighthsLeft) durationPool in
        if allowedDurations = []
        then (notes @ [\<lparr>key = ''b/4'', accidental = None, duration = D8, isRest = True\<rparr>], w)
        else let ((choice, event), w') = makeEvent env cf allowedDurations w
             in fill env cf (eighthsLeft - eighths choice) (notes @ [event]) w')"
  by pat_completeness auto
termination
  by (relation "measure (\<lambda>(env, cf, eighthsLeft, notes, w). nat \<lceil>eighthsLeft\<rceil>)")
     (auto dest: fill_decreases)

declare fill.simps [simp del]

fun measuresLoop ::
  "'k Env \<Rightarrow> Settings \<Rightarrow> rat \<Rightarrow> nat \<Rightarrow> 'k World \<Rightarrow> NoteSpec list list \<times> 'k World" where
  \<comment> \<open>\<open>for (let i = 0; i < bars; i += 1)\<close>, by the number of rounds\<close>
  "measuresLoop env cf e 0 w = ([], w)"
| "measuresLoop env cf e (Suc n) w =
     (let (m, w1) = fill env cf e [] w;
          (ms, w2) = measuresLoop env cf e n w1
      in (m # ms, w2))"

definition rounds :: "number \<Rightarrow> nat option" where
  \<comment> \<open>how often \<open>for (let i = 0; i < bars; i += 1)\<close> runs its body; \<open>None\<close> when it
      never ends: beyond \<open>2 ^ 53\<close> adding 1 leaves \<open>i\<close> as it is\<close>
  "rounds b =
     (case b of
        Fin x \<Rightarrow> if x \<le> 0 then Some 0 else if x \<le> 2 ^ 53 then Some (nat \<lceil>x\<rceil>) else None
      | PosInf \<Rightarrow> None
      | _ \<Rightarrow> Some 0)"

definition resolvePitch :: "string option \<Rightarrow> rat \<Rightarrow> number" where
  \<comment> \<open>\<open>pitch ? parsePitch(pitch)?.midi ?? d : d\<close>\<close>
  "resolvePitch pitch d =
     (case pitch of
        None \<Rightarrow> Fin d
      | Some s \<Rightarrow> if s = [] then Fin d
                  else case parsePitch s of None \<Rightarrow> Fin d | Some p \<Rightarrow> midi p)"

definition octavesFor :: "number \<Rightarrow> number \<Rightarrow> nat list" where
  "octavesFor lo hi =
     (let vs = filter (\<lambda>oct. num_le lo (Fin (of_nat ((oct + 1) * 12 + 11)))
                           \<and> num_le (Fin (of_nat ((oct + 1) * 12))) hi) [2..<8]
      in if vs = [] then [4] else vs)"

definition settings :: "number \<Rightarrow> string option \<Rightarrow> string option \<Rightarrow> Settings" where
  \<comment> \<open>the constants \<open>generateMeasures\<close> computes before its loops\<close>
  "settings noteDensity lowestPitch highestPitch =
     (let safeDensity = (if isFinite noteDensity then noteDensity else Fin 70);
          ratio = Math_max (Fin 0) (Math_min (Fin 1) (num_div safeDensity (Fin 100)));
          rest = Math_max (Fin 0)
                   (Math_min (fl (2 / 5)) (num_sub (fl (2 / 5)) (num_mul ratio (fl (7 / 20)))));
          lo = resolvePitch lowestPitch 48;
          hi = resolvePitch highestPitch 84
      in \<lparr>lowestMidi = lo, highestMidi = hi, validOctaves = octavesFor lo hi,
          densityRatio = ratio, restChance = rest\<rparr>)"

datatype gen_error = InvalidKey | NoResult

definition generateMeasures ::
  "'k Env \<Rightarrow> string \<Rightarrow> number \<Rightarrow> string \<Rightarrow> number \<Rightarrow> string option \<Rightarrow> string option
     \<Rightarrow> gen_error + NoteSpec list list" where
  \<comment> \<open>\<open>InvalidKey\<close>: the constructor of the key manager throws.  \<open>NoResult\<close>: a loop
      never ends, or a measure would need \<open>2 ^ 53\<close> eighths or more, which no array
      holds; below \<open>2 ^ 53\<close> the subtraction from \<open>eighthsLeft\<close> is exact.  A measure
      of NaN eighths is empty (\<open>NaN > 0\<close> is false).\<close>
  "generateMeasures env ky bars timeSig noteDensity lowestPitch highestPitch =
     (case newKeyManager env ky of
        None \<Rightarrow> Inl InvalidKey
      | Some k \<Rightarrow>
          let cf = settings noteDensity lowestPitch highestPitch;
              w = \<lparr>draws = 0, manager = k\<rparr>
          in case rounds bars of
               None \<Rightarrow> Inl NoResult
             | Some n \<Rightarrow>
                 if n = 0 then Inr []
                 else case eighthsPerMeasure (parseTimeSignature timeSig) of
                        Fin e \<Rightarrow> if 2 ^ 53 \<le> e then Inl NoResult
                                  else Inr (fst (measuresLoop env cf e n w))
                      | PosInf \<Rightarrow> Inl NoResult
                      | _ \<Rightarrow> Inr (replicate n []))"

section \<open>Scores, their export and their import\<close>

record GeneratedScore =
  id :: string
  key :: string
  bars :: number
  tempo :: number
  timeSig :: string
  measures :: "NoteSpec list list"
  createdAt :: number
  noteDensity :: number
  highestPitch :: "string option"
  lowestPitch :: "string option"

datatype json =
  JNull | JBool bool | JNum number | JStr string | JArr "json list" | JObj "(string \<times> json) list"

text \<open>
  \<open>JObj\<close> lists the properties of an object, each name once.  Reading a property gives
  \<open>None\<close> for \<open>undefined\<close>: the property is absent, or the value is no object.
\<close>

definition field :: "json \<Rightarrow> string \<Rightarrow> json option" where
  "field v name = (case v of JObj kvs \<Rightarrow> map_of kvs name | _ \<Rightarrow> None)"

fun truthy :: "json option \<Rightarrow> bool" where
  "truthy None = False"
| "truthy (Some JNull) = False"
| "truthy (Some (JBool b)) = b"
| "truthy (Some (JNum x)) = (x \<noteq> Fin 0 \<and> x \<noteq> NaN)"
| "truthy (Some (JStr s)) = (s \<noteq> [])"
| "truthy (Some (JArr xs)) = True"
| "truthy (Some (JObj kvs)) = True"

fun isObject :: "json \<Rightarrow> bool" where
  \<comment> \<open>\<open>v && typeof v === 'object'\<close>\<close>
  "isObject (JArr xs) = True"
| "isObject (JObj kvs) = True"
| "isObject v = False"

fun nonEmptyString :: "json option \<Rightarrow> bool" where
  \<comment> \<open>\<open>v && typeof v === 'string'\<close>\<close>
  "nonEmptyString (Some (JStr s)) = (s \<noteq> [])"
| "nonEmptyString v = False"

text \<open>
  What the platform supplies to the import: the conversion of a string and of an array
  or object to a number, the identifier \<open>crypto.randomUUID()\<close> returns and the time
  \<open>Date.now()\<close> returns.
\<close>

record Host =
  stringToNumber :: "string \<Rightarrow> number"
  objectToNumber :: "json \<Rightarrow> number"
  randomUUID :: string
  dateNow :: number

fun ToNumber :: "Host \<Rightarrow> json option \<Rightarrow> number" where
  \<comment> \<open>\<open>Number(v)\<close>\<close>
  "ToNumber host None = NaN"
| "ToNumber host (Some JNull) = Fin 0"
| "ToNumber host (Some (JBool b)) = (if b then Fin 1 else Fin 0)"
| "ToNumber host (Some (JNum x)) = x"
| "ToNumber host (Some (JStr s)) = StringToNumber (stringToNumber host) s"
| "ToNumber host (Some v) = objectToNumber host v"

text \<open>
  \<open>normalizeImportedScore\<close> returns \<open>null\<close> (\<open>Rejected\<close>) or an object.  The object
  is a \<open>GeneratedScore\<close> by its declared type only: the identifier, the key of a rest
  and an accidental are copied from the file unchecked.  Where one of them is no string
  the result is \<open>Untyped\<close>; the model does not follow such an object further.
\<close>

datatype 'a normalized = Rejected | Untyped | Normal 'a

fun durationOf :: "json option \<Rightarrow> Duration option" where
  "durationOf (Some (JStr s)) =
     (if s = ''q'' then Some Dq else if s = ''8'' then Some D8 else if s = ''h'' then Some Dh
      else None)"
| "durationOf v = None"

fun keyOrDefault :: "json option \<Rightarrow> string option" where
  \<comment> \<open>\<open>n.key ?? 'b/4'\<close>\<close>
  "keyOrDefault None = Some ''b/4''"
| "keyOrDefault (Some JNull) = Some ''b/4''"
| "keyOrDefault (Some (JStr s)) = Some s"
| "keyOrDefault (Some v) = None"

fun accidentalOrNull :: "json option \<Rightarrow> string option option" where
  \<comment> \<open>\<open>n.accidental ?? null\<close>\<close>
  "accidentalOrNull None = Some None"
| "accidentalOrNull (Some JNull) = Some None"
| "accidentalOrNull (Some (JStr s)) = Some (Some s)"
| "accidentalOrNull (Some v) = None"

definition normalizeNote :: "json \<Rightarrow> NoteSpec normalized" where
  "normalizeNote n =
     (if \<not> isObject n then Rejected
      else case durationOf (field n ''duration'') of
             None \<Rightarrow> Rejected
           | Some d \<Rightarrow>
               let rest = truthy (field n ''isRest'') in
               if \<not> rest \<and> \<not> nonEmptyString (field n ''key'') then Rejected
               else case (keyOrDefault (field n ''key''), accidentalOrNull (field n ''accidental'')) of
                      (Some k, Some a) \<Rightarrow>
                        Normal \<lparr>NoteSpec.key = k, accidental = a, duration = d, isRest = rest\<rparr>
                    | _ \<Rightarrow> Untyped)"

fun collect :: "('a \<Rightarrow> 'b normalized) \<Rightarrow> 'a list \<Rightarrow> 'b list normalized" where
  \<comment> \<open>a loop that normalizes the elements of an array in turn and returns \<open>null\<close> at
      the first element it rejects\<close>
  "collect f [] = Normal []"
| "collect f (x # xs) =
     (case f x of
        Rejected \<Rightarrow> Rejected
      | Untyped \<Rightarrow> (case collect f xs of Rejected \<Rightarrow> Rejected | _ \<Rightarrow> Untyped)
      | Normal y \<Rightarrow> (case collect f xs of
                       Rejected \<Rightarrow> Rejected
                     | Untyped \<Rightarrow> Untyped
                     | Normal ys \<Rightarrow> Normal (y # ys)))"

definition normalizeMeasure :: "json \<Rightarrow> NoteSpec list normalized" where
  "normalizeMeasure m = (case m of JArr ns \<Rightarrow> collect normalizeNote ns | _ \<Rightarrow> Rejected)"

definition returnedScore ::
  "Host \<Rightarrow> json \<Rightarrow> number \<Rightarrow> number \<Rightarrow> string \<Rightarrow> string \<Rightarrow> NoteSpec list list
     \<Rightarrow> GeneratedScore normalized" where
  \<comment> \<open>the end of \<open>normalizeImportedScore\<close>: \<open>barsNum\<close> and the object returned, once
      the key, the time signature, the tempo and the measures have passed\<close>
  "returnedScore host raw tempoNum densityNum lowestPitchStr highestPitchStr normalizedMeasures =
     (let barsNum = (if isFinite (ToNumber host (field raw ''bars''))
                     then ToNumber host (field raw ''bars'')
                     else if normalizedMeasures = [] then Fin 1
                     else Fin (of_nat (length normalizedMeasures)));
          created = (if truthy (field raw ''createdAt'')
                        \<and> isFinite (ToNumber host (field raw ''createdAt''))
                     then ToNumber host (field raw ''createdAt'') else dateNow host)
      in case (if truthy (field raw ''id'') then field raw ''id''
               else Some (JStr (randomUUID host))) of
           Some (JStr i) \<Rightarrow>
             Normal \<lparr>id = i,
                     key = (case field raw ''key'' of Some (JStr s) \<Rightarrow> s | _ \<Rightarrow> []),
                     bars = barsNum, tempo = tempoNum,
                     timeSig = (case field raw ''timeSig'' of Some (JStr s) \<Rightarrow> s | _ \<Rightarrow> []),
                     measures = normalizedMeasures, createdAt = created,
                     noteDensity = densityNum,
                     highestPitch = Some highestPitchStr,
                     lowestPitch = Some lowestPitchStr\<rparr>
         | _ \<Rightarrow> Untyped)"

definition normalizeImportedScore :: "Host \<Rightarrow> json \<Rightarrow> GeneratedScore normalized" where
  "normalizeImportedScore host raw =
     (if \<not> isObject raw then Rejected
      else if \<not> nonEmptyString (field raw ''key'') then Rejected
      else if \<not> nonEmptyString (field raw ''timeSig'') then Rejected
      else let tempoNum = ToNumber host (field raw ''tempo'') in
        if \<not> isFinite tempoNum then Rejected
        else let densityNum = (if isFinite (ToNumber host (field raw ''noteDensity''))
                               then ToNumber host (field raw ''noteDensity'') else Fin 70);
                 lowestPitchStr = (case field raw ''lowestPitch'' of Some (JStr s) \<Rightarrow> s | _ \<Rightarrow> ''C4'');
                 highestPitchStr = (case field raw ''highestPitch'' of Some (JStr s) \<Rightarrow> s | _ \<Rightarrow> ''G5'')
          in case field raw ''measures'' of
               Some (JArr measuresRaw) \<Rightarrow>
                 (case collect normalizeMeasure measuresRaw of
                    Rejected \<Rightarrow> Rejected
                  | Untyped \<Rightarrow> Untyped
                  | Normal normalizedMeasures \<Rightarrow>
                      returnedScore host raw tempoNum densityNum lowestPitchStr highestPitchStr
                        normalizedMeasures)
             | _ \<Rightarrow> Rejected)"

text \<open>
  \<open>handleDownload\<close> writes \<open>JSON.stringify(item, null, 2)\<close> to a file, named from the
  key and the identifier.  \<open>exportedJSON\<close> is the value that text denotes, which is
  what \<open>JSON.parse\<close> returns for it: a number that is not finite is written as
  \<open>null\<close>, an absent pitch is left out.  An accidental that is \<open>None\<close> is left out
  (\<open>undefined\<close>) or written as \<open>null\<close>; the flag \<open>nulls\<close> chooses.
\<close>

definition jsonNumber :: "number \<Rightarrow> json" where
  "jsonNumber x = (if isFinite x then JNum x else JNull)"

fun durationString :: "Duration \<Rightarrow> string" where
  "durationString Dq = ''q''"
| "durationString D8 = ''8''"
| "durationString Dh = ''h''"

definition noteJSON :: "bool \<Rightarrow> NoteSpec \<Rightarrow> json" where
  "noteJSON nulls n =
     JObj ([(''key'', JStr (NoteSpec.key n))]
           @ (case accidental n of
                Some a \<Rightarrow> [(''accidental'', JStr a)]
              | None \<Rightarrow> if nulls then [(''accidental'', JNull)] else [])
           @ [(''duration'', JStr (durationString (duration n))),
              (''isRest'', JBool (isRest n))])"

definition optionalString :: "string \<Rightarrow> string option \<Rightarrow> (string \<times> json) list" where
  "optionalString name v = (case v of Some s \<Rightarrow> [(name, JStr s)] | None \<Rightarrow> [])"

definition exportedJSON :: "bool \<Rightarrow> GeneratedScore \<Rightarrow> json" where
  "exportedJSON nulls item =
     JObj ([(''id'', JStr (id item)),
            (''key'', JStr (key item)),
            (''bars'', jsonNumber (bars item)),
            (''tempo'', jsonNumber (tempo item)),
            (''timeSig'', JStr (timeSig item)),
            (''noteDensity'', jsonNumber (noteDensity item))]
           @ optionalString ''lowestPitch'' (lowestPitch item)
           @ optionalString ''highestPitch'' (highestPitch item)
           @ [(''measures'', JArr (map (\<lambda>m. JArr (map (noteJSON nulls) m)) (measures item))),
              (''createdAt'', jsonNumber (createdAt item))])"

definition safeChar :: "char \<Rightarrow> bool" where
  \<comment> \<open>the class \<open>[a-z0-9-]\<close> under the flag \<open>i\<close>\<close>
  "safeChar c = (c \<in> set ''abcdefghijklmnopqrstuvwxyzABCDEFGHIJKLMNOPQRSTUVWXYZ0123456789-'')"

function replaceUnsafe :: "string \<Rightarrow> string" where
  \<comment> \<open>\<open>key.replace(/[^a-z0-9-]+/gi, '_')\<close>: each match, a longest run of characters
      outside the class, becomes one underscore\<close>
  "replaceUnsafe [] = []"
| "replaceUnsafe (c # cs) =
     (if safeChar c then c # replaceUnsafe cs
      else CHR ''_'' # replaceUnsafe (dropWhile (\<lambda>c. \<not> safeChar c) cs))"
  by pat_completeness auto
termination
  by (relation "measure length") (auto simp: le_imp_less_Suc length_dropWhile_le)

definition downloadName :: "GeneratedScore \<Rightarrow> string" where
  \<comment> \<open>\<open>filename\<close> in \<open>handleDownload\<close>\<close>
  "downloadName item =
     (let safeKey = replaceUnsafe (key item) in
      ''score-'' @ (if safeKey = [] then ''untitled'' else safeKey) @ ''-'' @ id item @ ''.json'')"

section \<open>The state of the application\<close>

text \<open>
  The state variables of the component that the handlers below read or write, the
  content of the local storage under the key of the collection, and the alerts shown so
  far.  The state variables carry the prefix \<open>ui_\<close> where a field of a score has the
  same name.  Writing the collection to the local storage is taken to succeed.
\<close>

datatype Alert = Duplicate | ImportInvalid | ImportFailed

record AppState =
  score :: "GeneratedScore option"
  previousScore :: "GeneratedScore option"
  ui_keySig :: string
  ui_bars :: number
  ui_tempo :: number
  ui_timeSig :: string
  ui_noteDensity :: number
  ui_lowestPitch :: string
  ui_highestPitch :: string
  collection :: "GeneratedScore list"
  stored :: "GeneratedScore list"
  alerts :: "Alert list"

definition handleSave :: "AppState \<Rightarrow> AppState" where
  "handleSave st =
     (case score st of
        None \<Rightarrow> st
      | Some sc \<Rightarrow>
          if list_ex (\<lambda>item. id item = id sc) (collection st)
          then st\<lparr>alerts := alerts st @ [Duplicate]\<rparr>
          else let updated = take 30 (sc # collection st)
               in st\<lparr>collection := updated, stored := updated\<rparr>)"

text \<open>
  The file chosen for import: none, a text that \<open>JSON.parse\<close> rejects (or that cannot
  be read), or a text with the value \<open>JSON.parse\<close> returns.
\<close>

datatype ImportFile = NoFile | Unreadable | Parsed json

definition handleFileSelected :: "Host \<Rightarrow> ImportFile \<Rightarrow> AppState \<Rightarrow> AppState option" where
  \<comment> \<open>\<open>None\<close>: the object installed as the score is \<open>Untyped\<close>\<close>
  "handleFileSelected host file st =
     (case file of
        NoFile \<Rightarrow> Some st
      | Unreadable \<Rightarrow> Some (st\<lparr>alerts := alerts st @ [ImportFailed]\<rparr>)
      | Parsed parsed \<Rightarrow>
          (case normalizeImportedScore host parsed of
             Rejected \<Rightarrow> Some (st\<lparr>alerts := alerts st @ [ImportInvalid]\<rparr>)
           | Untyped \<Rightarrow> None
           | Normal imported \<Rightarrow>
               let filtered = filter (\<lambda>c. id c \<noteq> id imported) (collection st);
                   updated = take 30 (imported # filtered)
               in Some (st\<lparr>previousScore := score st,
                            score := Some imported,
                            ui_keySig := key imported,
                            ui_bars := bars imported,
                            ui_tempo := tempo imported,
                            ui_timeSig := timeSig imported,
                            ui_noteDensity := noteDensity imported,
                            ui_lowestPitch := (case lowestPitch imported of Some s \<Rightarrow> s | None \<Rightarrow> ''C4''),
                            ui_highestPitch := (case highestPitch imported of Some s \<Rightarrow> s | None \<Rightarrow> ''G5''),
                            collection := updated,
                            stored := updated\<rparr>)))"


section \<open>Examples\<close>

definition exampleScore :: GeneratedScore where
  "exampleScore =
     \<lparr>id = ''7b0c'', key = ''F#m'', bars = Fin 1, tempo = Fin 100, timeSig = ''2/4'',
      measures = [[\<lparr>NoteSpec.key = ''f#/4'', accidental = Some ''#'', duration = Dq, isRest = False\<rparr>,
                   \<lparr>NoteSpec.key = ''b/4'', accidental = None, duration = D8, isRest = True\<rparr>,
                   \<lparr>NoteSpec.key = ''a/4'', accidental = None, duration = D8, isRest = False\<rparr>]],
      createdAt = Fin 1700000000000, noteDensity = Fin 70,
      highestPitch = Some ''G5'', lowestPitch = Some ''C4''\<rparr>"

definition exampleState :: AppState where
  "exampleState =
     \<lparr>score = Some exampleScore, previousScore = None, ui_keySig = ''C'', ui_bars = Fin 4,
      ui_tempo = Fin 100, ui_timeSig = ''4/4'', ui_noteDensity = Fin 70,
      ui_lowestPitch = ''C4'', ui_highestPitch = ''G5'',
      collection = [], stored = [], alerts = []\<rparr>"

definition exampleHost :: Host where
  "exampleHost =
     \<lparr>stringToNumber = (\<lambda>s. NaN), objectToNumber = (\<lambda>v. NaN),
      randomUUID = ''0e6f'', dateNow = Fin 1700000000001\<rparr>"

definition exampleEnv :: "unit Env" where
  \<comment> \<open>every call of \<open>Math.random()\<close> returns a half; the key manager has no state and
      selects the natural note of every letter\<close>
  "exampleEnv =
     \<lparr>random = (\<lambda>n. 2 ^ 52),
      newKeyManager = (\<lambda>k. Some ()),
      selectNote = (\<lambda>k lt. (\<lparr>sel_note = lt, sel_accidental = None\<rparr>, k)),
      strnum = (\<lambda>s. NaN)\<rparr>"

section \<open>Rounding to a double\<close>

lemma ilog2_bounds:
  assumes "0 < x"
  shows "2 powi (ilog2 x) \<le> x \<and> x < 2 powi (ilog2 x + 1)"
proof (cases "1 \<le> x")
  case True
  define n where "n = \<lfloor>x\<rfloor>"
  have n: "1 \<le> n" using True by (simp add: n_def le_floor_iff)
  have b: "2 ^ nat (bitlen n - 1) \<le> n \<and> n < 2 ^ nat (bitlen n)"
    using bitlen_bounds[of n] n by simp
  have bl: "1 \<le> bitlen n" using n bitlen_eq_zero_iff[of n] bitlen_nonneg[of n] by linarith
  have e: "ilog2 x = bitlen n - 1" using True by (simp add: ilog2_def n_def)
  have lo: "(2::rat) powi (bitlen n - 1) \<le> x"
  proof -
    have "(2::rat) powi (bitlen n - 1) = 2 ^ nat (bitlen n - 1)"
      using bl by (simp add: power_int_def)
    also have "\<dots> = of_int (2 ^ nat (bitlen n - 1))" by simp
    also have "\<dots> \<le> of_int n" using b by (simp only: of_int_le_iff)
    also have "\<dots> \<le> x" by (simp add: n_def)
    finally show ?thesis .
  qed
  have hi: "x < (2::rat) powi (bitlen n - 1 + 1)"
  proof -
    have "x < of_int (n + 1)" unfolding n_def by (simp add: floor_less_iff[symmetric]) linarith
    also have "\<dots> \<le> of_int (2 ^ nat (bitlen n))" using b by (simp only: of_int_le_iff) simp
    also have "\<dots> = (2::rat) powi (bitlen n - 1 + 1)" using bl by (simp add: power_int_def)
    finally show ?thesis .
  qed
  show ?thesis using lo hi e by simp
next
  case False
  define m where "m = \<lceil>1 / x\<rceil> - 1"
  have x1: "x < 1" using False by simp
  have inv: "1 < 1 / x" using assms x1 by simp
  have m: "1 \<le> m" using inv by (simp add: m_def less_ceiling_iff)
  have b: "2 ^ nat (bitlen m - 1) \<le> m \<and> m < 2 ^ nat (bitlen m)"
    using bitlen_bounds[of m] m by simp
  have bl: "1 \<le> bitlen m" using m bitlen_eq_zero_iff[of m] bitlen_nonneg[of m] by linarith
  have e: "ilog2 x = - bitlen m" using False by (simp add: ilog2_def m_def)
  have m_lt: "of_int m < 1 / x" by (simp add: m_def) linarith
  have m_ge: "1 / x \<le> of_int m + 1" by (simp add: m_def)
  have lo: "(2::rat) powi (- bitlen m) \<le> x"
  proof -
    have "1 / x \<le> of_int (m + 1)" using m_ge by simp
    also have "\<dots> \<le> of_int (2 ^ nat (bitlen m))" using b by (simp only: of_int_le_iff) simp
    also have "\<dots> = (2::rat) ^ nat (bitlen m)" by simp
    finally have "1 / x \<le> (2::rat) ^ nat (bitlen m)" .
    then have "1 / (2::rat) ^ nat (bitlen m) \<le> x"
      using assms by (simp add: field_simps)
    moreover have "(2::rat) powi (- bitlen m) = 1 / 2 ^ nat (bitlen m)"
      using bl by (simp add: power_int_def field_simps)
    ultimately show ?thesis by simp
  qed
  have hi: "x < (2::rat) powi (- bitlen m + 1)"
  proof -
    have "(2::rat) ^ nat (bitlen m - 1) = of_int (2 ^ nat (bitlen m - 1))" by simp
    also have "\<dots> \<le> of_int m" using b by (simp only: of_int_le_iff)
    also have "\<dots> < 1 / x" by (rule m_lt)
    finally have "(2::rat) ^ nat (bitlen m - 1) < 1 / x" .
    then have "x < 1 / (2::rat) ^ nat (bitlen m - 1)"
      using assms by (simp add: field_simps)
    moreover have "(2::rat) powi (- bitlen m + 1) = 1 / 2 ^ nat (bitlen m - 1)"
    proof -
      have "- bitlen m + 1 = - (bitlen m - 1)" by simp
      then have "(2::rat) powi (- bitlen m + 1) = inverse (2 powi (bitlen m - 1))"
        by (simp only: power_int_minus)
      also have "\<dots> = 1 / 2 ^ nat (bitlen m - 1)" using bl by (simp add: power_int_def field_simps)
      finally show ?thesis .
    qed
    ultimately show ?thesis by simp
  qed
  show ?thesis using lo hi e by simp
qed

lemma round_even_of_int: "round_even (of_int m) = m"
  by (simp add: round_even_def)


lemma powi2_less_cancel: "(2::rat) powi a < 2 powi b \<Longrightarrow> a < b"
  using power_int_increasing[of b a "2::rat"] by (cases "a < b") auto

lemma powi2_le_cancel: "(2::rat) powi a \<le> 2 powi b \<Longrightarrow> a \<le> b"
  using power_int_strict_increasing[of b a "2::rat"] by (cases "a \<le> b") auto

lemma fl_pos_exact:
  assumes x: "0 < x"
    and m: "x / 2 powi (max (ilog2 x) (- 1022) - 52) = of_int m"
    and e: "ilog2 x < 1024"
  shows "fl_pos x = Fin x"
proof -
  define u where "u = max (ilog2 x) (- 1022) - 52"
  have r: "round_even (x / 2 powi u) = m"
    using m by (simp add: u_def round_even_of_int)
  have bk: "of_int m * 2 powi u = x"
    using m by (simp add: u_def field_simps)
  have nov: "\<not> (ilog2 x = 1023 \<and> m = 2 ^ 53)"
  proof
    assume a: "ilog2 x = 1023 \<and> m = 2 ^ 53"
    then have "u = 971" by (simp add: u_def)
    then have "x = 2 ^ 53 * 2 powi 971" using bk a by simp
    also have "\<dots> = 2 powi (53 + 971)" by (simp add: power_int_add)
    finally have "x = 2 powi 1024" by simp
    moreover have "x < 2 powi (ilog2 x + 1)" using ilog2_bounds[OF x] by simp
    ultimately show False using a by simp
  qed
  show ?thesis
    using r bk nov e by (simp add: fl_pos_def Let_def u_def[symmetric])
qed

lemma fl_dyadic_pos:
  assumes k: "0 < k" "k < 2 ^ 53" and j: "j \<le> 1074"
  shows "fl_pos (of_int k / 2 ^ j) = Fin (of_int k / 2 ^ j)"
proof -
  define x :: rat where "x = of_int k / 2 ^ j"
  have x: "0 < x" using k by (simp add: x_def)
  have xp: "x = of_int k * 2 powi (- int j)"
    by (simp add: x_def power_int_minus field_simps)
  have "of_int k < (2::rat) ^ 53" using k(2) by (metis of_int_less_iff of_int_numeral of_int_power)
  then have "x < 2 ^ 53 * 2 powi (- int j)" unfolding xp by simp
  also have "\<dots> = 2 powi (53 - int j)" by (simp add: power_int_diff power_int_minus field_simps)
  finally have xlt: "x < 2 powi (53 - int j)" .
  have "(2::rat) powi (ilog2 x) < 2 powi (53 - int j)"
    using ilog2_bounds[OF x] xlt by linarith
  then have elt: "ilog2 x < 53 - int j"
    by (rule powi2_less_cancel)
  define u where "u = max (ilog2 x) (- 1022) - 52"
  have ule: "u \<le> - int j" using elt j by (simp add: u_def)
  define d where "d = nat (- int j - u)"
  have "x / 2 powi u = of_int k * 2 powi (- int j - u)"
    unfolding xp by (simp add: power_int_diff)
  also have "\<dots> = of_int k * 2 ^ d" using ule by (simp add: d_def power_int_def)
  also have "\<dots> = of_int (k * 2 ^ d)" by simp
  finally have m: "x / 2 powi (max (ilog2 x) (- 1022) - 52) = of_int (k * 2 ^ d)"
    by (simp add: u_def)
  have e: "ilog2 x < 1024" using elt by simp
  show ?thesis using fl_pos_exact[OF x m e] by (simp add: x_def)
qed

lemma fl_dyadic:
  assumes "\<bar>k\<bar> < 2 ^ 53" "j \<le> 1074"
  shows "fl (of_int k / 2 ^ j) = Fin (of_int k / 2 ^ j)"
proof -
  consider "k = 0" | "0 < k" | "k < 0" by linarith
  then show ?thesis
  proof cases
    case 1 then show ?thesis by (simp add: fl_def)
  next
    case 2 then show ?thesis using fl_dyadic_pos[of k j] assms by (simp add: fl_def)
  next
    case 3
    then have "fl_pos (of_int (- k) / 2 ^ j) = Fin (of_int (- k) / 2 ^ j)"
      using fl_dyadic_pos[of "- k" j] assms by simp
    moreover have "rat_of_int k / 2 ^ j < 0" using 3 by (simp add: divide_neg_pos)
    ultimately show ?thesis using 3 by (simp add: fl_def)
  qed
qed

lemma fl_of_int: "\<bar>k\<bar> < 2 ^ 53 \<Longrightarrow> fl (of_int k) = Fin (of_int k)"
  using fl_dyadic[of k 0] by simp

lemma fl_of_nat: "n < 2 ^ 53 \<Longrightarrow> fl (of_nat n) = Fin (of_nat n)"
  using fl_of_int[of "int n"] by simp


lemma round_even_nonneg: "0 \<le> x \<Longrightarrow> 0 \<le> round_even x"
  by (auto simp: round_even_def Let_def)

lemma round_even_below:
  assumes "x < of_int N - 1 / 2"
  shows "round_even x < N"
proof -
  have f: "\<lfloor>x\<rfloor> \<le> N - 1" using assms by (simp add: floor_le_iff) linarith
  show ?thesis
  proof (cases "\<lfloor>x\<rfloor> = N - 1")
    case True
    then have "x - of_int \<lfloor>x\<rfloor> < 1 / 2" using assms by simp
    then show ?thesis using True by (simp add: round_even_def Let_def)
  next
    case False
    then have "\<lfloor>x\<rfloor> \<le> N - 2" using f by linarith
    then show ?thesis by (auto simp: round_even_def Let_def)
  qed
qed

lemma fl_pos_below:
  assumes x: "0 < x" and n: "0 < n" "n < 2 ^ 53"
    and gap: "of_int n / 2 ^ 53 \<le> of_int n - x"
  shows "\<exists>y. fl_pos x = Fin y \<and> 0 \<le> y \<and> y < of_int n"
proof -
  define e where "e = ilog2 x"
  define u where "u = max e (- 1022) - 52"
  define m where "m = round_even (x / 2 powi u)"
  have b: "2 powi e \<le> x" "x < 2 powi (e + 1)" using ilog2_bounds[OF x] by (simp_all add: e_def)
  have "(0::rat) < of_int n / 2 ^ 53" using n(1) by simp
  then have xn: "x < of_int n" using gap by linarith
  have "of_int n < (2::rat) ^ 53" using n(2) by (metis of_int_less_iff of_int_numeral of_int_power)
  then have "(2::rat) powi e < 2 powi 53" using b(1) xn by simp
  then have e53: "e < 53" by (rule powi2_less_cancel)
  have u0: "u \<le> 0" using e53 by (simp add: u_def)
  define N where "N = n * 2 ^ nat (- u)"
  have pu: "(2::rat) powi u = 1 / 2 ^ nat (- u)"
    using u0 by (simp add: power_int_def field_simps)
  have N: "of_int n / 2 powi u = (of_int N :: rat)" by (simp add: N_def pu)
  have half: "(2::rat) powi (u - 1) < of_int n / 2 ^ 53"
  proof (cases "- 1022 \<le> e")
    case True
    then have ue: "u - 1 = e - 53" by (simp add: u_def)
    have "(2::rat) powi (e - 53) = 2 powi e / 2 powi 53" by (rule power_int_diff) simp
    then have "(2::rat) powi (u - 1) = 2 powi e / 2 ^ 53" unfolding ue by simp
    also have "\<dots> < of_int n / 2 ^ 53" using b(1) xn by (simp add: divide_strict_right_mono)
    finally show ?thesis .
  next
    case False
    then have "u - 1 = - 1075" by (simp add: u_def)
    then have "(2::rat) powi (u - 1) = 1 / 2 ^ 1075" by (simp add: power_int_minus field_simps)
    also have "\<dots> < 1 / 2 ^ 53" by simp
    also have "\<dots> \<le> of_int n / 2 ^ 53" using n(1) by (simp add: divide_right_mono)
    finally show ?thesis .
  qed
  have pos: "(0::rat) < 2 powi u" by simp
  have "2 powi (u - 1) < of_int n - x" using half gap by linarith
  then have "2 powi (u - 1) / 2 powi u < (of_int n - x) / 2 powi u"
    using pos by (simp add: divide_strict_right_mono)
  moreover have "(2::rat) powi (u - 1) / 2 powi u = 1 / 2" by (simp add: power_int_diff)
  ultimately have "x / 2 powi u < of_int N - 1 / 2"
    using N by (simp add: diff_divide_distrib)
  then have mN: "m < N" unfolding m_def by (rule round_even_below)
  have m0: "0 \<le> m" unfolding m_def using x by (intro round_even_nonneg) simp
  have "rat_of_int m < of_int N" using mN by simp
  then have "of_int m * 2 powi u < rat_of_int N * 2 powi u" using pos by (rule mult_strict_right_mono)
  also have "\<dots> = of_int n" using N[symmetric] by simp
  finally have lt: "of_int m * 2 powi u < (of_int n :: rat)" .
  have ge: "0 \<le> of_int m * (2::rat) powi u" using m0 by simp
  have "fl_pos x = Fin (of_int m * 2 powi u)"
    using e53 by (simp add: fl_pos_def Let_def e_def[symmetric] u_def[symmetric] m_def[symmetric])
  then show ?thesis using lt ge by simp
qed

lemma randomChoice_index:
  assumes "items \<noteq> []" "length items < 2 ^ 53"
  shows "\<exists>i < length items. randomChoice env items w = (items ! i, snd (Math_random env w))"
proof -
  define k where "k = random env (draws w) mod 2 ^ 53"
  define n where "n = length items"
  define x :: rat where "x = of_nat k / 2 ^ 53 * of_nat n"
  have k: "k < 2 ^ 53" by (simp add: k_def)
  have n: "0 < n" "n < 2 ^ 53" using assms by (simp_all add: n_def)
  have "\<exists>y. fl x = Fin y \<and> 0 \<le> y \<and> y < of_nat n"
  proof (cases "k = 0")
    case True
    then show ?thesis using n by (simp add: x_def fl_def)
  next
    case False
    then have x0: "0 < x" using n by (simp add: x_def)
    have "int k \<le> 2 ^ 53 - 1" using k by simp
    then have "rat_of_int (int k) \<le> of_int (2 ^ 53 - 1)" by (simp only: of_int_le_iff)
    then have "of_nat k \<le> (2::rat) ^ 53 - 1" by simp
    then have "x \<le> (2 ^ 53 - 1) / 2 ^ 53 * of_nat n"
      unfolding x_def by (intro mult_right_mono divide_right_mono) simp_all
    then have gap: "of_int (int n) / 2 ^ 53 \<le> of_int (int n) - x"
      by (simp add: field_simps)
    show ?thesis
      using fl_pos_below[OF x0 _ _ gap] n x0 by (simp add: fl_def)
  qed
  then obtain y where y: "fl x = Fin y" "0 \<le> y" "y < of_nat n" by blast
  have i: "nat \<lfloor>y\<rfloor> < n" using y by (simp add: floor_less_iff nat_less_iff)
  have mr: "Math_random env w = (Fin (of_nat k / 2 ^ 53), w\<lparr>draws := Suc (draws w)\<rparr>)"
    by (simp add: Math_random_def k_def)
  have mul: "fl (rat_of_nat k * rat_of_nat (length items) / 2 ^ 53) = Fin y"
    using y(1) by (simp add: x_def n_def)
  have "randomChoice env items w = (items ! nat \<lfloor>y\<rfloor>, snd (Math_random env w))"
    unfolding randomChoice_def mr using mul by simp
  then show ?thesis using i unfolding n_def by blast
qed

section \<open>The library of saved scores\<close>

text \<open>
  C6.  Saving a score whose identifier is in the library leaves the library (and what is
  stored, and the score) as it was; saving a score with a new identifier makes the
  library the score followed by the old library, cut to its first 30 entries, so that
  the oldest entries go first.  Saving twice changes no more than saving once, and a
  library of at most 30 entries stays so.
\<close>

theorem handleSave_library:
  assumes "score st = Some sc"
  shows "(if id sc \<in> id ` set (collection st)
          then collection (handleSave st) = collection st \<and> stored (handleSave st) = stored st
               \<and> score (handleSave st) = score st
          else collection (handleSave st) = take 30 (sc # collection st)
               \<and> stored (handleSave st) = take 30 (sc # collection st))
         \<and> collection (handleSave (handleSave st)) = collection (handleSave st)
         \<and> (length (collection st) \<le> 30 \<longrightarrow> length (collection (handleSave st)) \<le> 30)"
proof -
  have ex: "list_ex (\<lambda>item. id item = id sc) (collection st) = (id sc \<in> id ` set (collection st))"
    by (auto simp: list_ex_iff image_iff) metis
  show ?thesis
  proof (cases "id sc \<in> id ` set (collection st)")
    case True
    then show ?thesis using assms ex by (simp add: handleSave_def)
  next
    case False
    define st' where "st' = st\<lparr>collection := take 30 (sc # collection st), stored := take 30 (sc # collection st)\<rparr>"
    have 1: "handleSave st = st'"
      using assms ex False by (simp add: handleSave_def Let_def st'_def)
    have 2: "list_ex (\<lambda>item. id item = id sc) (collection st')"
      by (simp add: st'_def take_Cons')
    have 3: "score st' = Some sc" using assms by (simp add: st'_def)
    have 4: "handleSave st' = st'\<lparr>alerts := alerts st' @ [Duplicate]\<rparr>"
      using 2 3 by (simp add: handleSave_def)
    have 5: "collection st' = take 30 (sc # collection st)" "stored st' = take 30 (sc # collection st)"
      by (simp_all add: st'_def)
    show ?thesis using False unfolding 1 4 by (simp add: 5)
  qed
qed

theorem handleSave_library_witness:
  "collection (handleSave exampleState) = [exampleScore]
   \<and> stored (handleSave exampleState) = [exampleScore]
   \<and> collection (handleSave (handleSave exampleState)) = [exampleScore]
   \<and> collection (handleSave (exampleState\<lparr>collection := [exampleScore]\<rparr>)) = [exampleScore]"
  using handleSave_library[of exampleState exampleScore]
        handleSave_library[of "exampleState\<lparr>collection := [exampleScore]\<rparr>" exampleScore]
  by (simp add: exampleState_def)


section \<open>The name of an exported file\<close>

text \<open>
  \<open>replaceEach\<close> replaces every single character outside the class by an underscore;
  \<open>squeeze\<close> makes one underscore of every run of underscores; \<open>unsafePair\<close> holds
  when two characters outside the class stand side by side.
\<close>

definition replaceEach :: "string \<Rightarrow> string" where
  "replaceEach s = map (\<lambda>c. if safeChar c then c else CHR ''_'') s"

fun squeeze :: "string \<Rightarrow> string" where
  "squeeze (c # d # cs) =
     (if c = CHR ''_'' \<and> d = CHR ''_'' then squeeze (d # cs) else c # squeeze (d # cs))"
| "squeeze cs = cs"

fun unsafePair :: "string \<Rightarrow> bool" where
  "unsafePair (c # d # cs) = ((\<not> safeChar c \<and> \<not> safeChar d) \<or> unsafePair (d # cs))"
| "unsafePair cs = False"

lemma underscore_unsafe: "\<not> safeChar (CHR ''_'')"
  by (simp add: safeChar_def)

lemma squeeze_underscores:
  "\<forall>c\<in>set us. \<not> safeChar c \<Longrightarrow>
     squeeze (CHR ''_'' # replaceEach (us @ rest)) = squeeze (CHR ''_'' # replaceEach rest)"
  by (induction us) (auto simp: replaceEach_def)

lemma replaceUnsafe_squeeze: "replaceUnsafe s = squeeze (replaceEach s)"
proof (induction s rule: replaceUnsafe.induct)
  case 1
  show ?case by (simp add: replaceEach_def)
next
  case (2 c cs)
  show ?case
  proof (cases "safeChar c")
    case True
    then have "c \<noteq> CHR ''_''" using underscore_unsafe by auto
    then show ?thesis using True 2(1)
      by (cases cs) (auto simp: replaceEach_def)
  next
    case False
    define us where "us = takeWhile (\<lambda>c. \<not> safeChar c) cs"
    define rest where "rest = dropWhile (\<lambda>c. \<not> safeChar c) cs"
    have cs: "cs = us @ rest" by (simp add: us_def rest_def)
    have us: "\<forall>c\<in>set us. \<not> safeChar c" using set_takeWhileD[of _ "\<lambda>c. \<not> safeChar c" cs] by (auto simp: us_def)
    have hd: "rest = [] \<or> safeChar (hd rest)"
      using hd_dropWhile[of "\<lambda>c. \<not> safeChar c" cs] by (auto simp: rest_def)
    have "replaceUnsafe (c # cs) = CHR ''_'' # squeeze (replaceEach rest)"
      using False 2(2) by (simp add: rest_def)
    also have "\<dots> = squeeze (CHR ''_'' # replaceEach rest)"
    proof (cases rest)
      case Nil then show ?thesis by (simp add: replaceEach_def)
    next
      case (Cons r rs)
      then have "safeChar r" using hd by simp
      then have "r \<noteq> CHR ''_''" using underscore_unsafe by auto
      then show ?thesis using Cons \<open>safeChar r\<close> by (simp add: replaceEach_def)
    qed
    also have "\<dots> = squeeze (CHR ''_'' # replaceEach (us @ rest))"
      using squeeze_underscores[OF us] by simp
    also have "\<dots> = squeeze (replaceEach (c # cs))"
      using False cs by (simp add: replaceEach_def)
    finally show ?thesis .
  qed
qed

lemma squeeze_no_pair: "\<not> unsafePair s \<Longrightarrow> squeeze (replaceEach s) = replaceEach s"
  by (induction s rule: unsafePair.induct) (auto simp: replaceEach_def underscore_unsafe)

lemma replaceUnsafe_Nil_iff: "replaceUnsafe s = [] \<longleftrightarrow> s = []"
  by (cases s) auto

text \<open>
  C9, as stated: the file name is \<open>score-\<close>, the key with every single character outside
  \<open>[a-zA-Z0-9-]\<close> replaced by an underscore, a hyphen, the identifier and \<open>.json\<close>.
  It fails for the key \<open>F# minor\<close>: the program writes \<open>score-F_minor-7b0c.json\<close>, with
  one underscore for the two characters.
\<close>

theorem downloadName_counterexample:
  "downloadName (exampleScore\<lparr>key := ''F# minor''\<rparr>)
     \<noteq> ''score-'' @ replaceEach (key (exampleScore\<lparr>key := ''F# minor''\<rparr>)) @ ''-''
         @ id (exampleScore\<lparr>key := ''F# minor''\<rparr>) @ ''.json''"
  by (simp add: downloadName_def exampleScore_def replaceEach_def safeChar_def)

text \<open>
  C9, amended: every run of characters outside the class becomes one underscore, and an
  empty key becomes \<open>untitled\<close>.  For a key that is not empty and has no two such
  characters side by side the name is the one the specification states.
\<close>

theorem downloadName_runs:
  "downloadName item =
     ''score-'' @ (if key item = [] then ''untitled'' else squeeze (replaceEach (key item)))
       @ ''-'' @ id item @ ''.json''
   \<and> (key item \<noteq> [] \<and> \<not> unsafePair (key item) \<longrightarrow>
        downloadName item = ''score-'' @ replaceEach (key item) @ ''-'' @ id item @ ''.json'')"
  using replaceUnsafe_Nil_iff[of "key item"]
  by (auto simp: downloadName_def Let_def replaceUnsafe_squeeze squeeze_no_pair simp del: replaceUnsafe.simps)

theorem downloadName_runs_witness:
  "downloadName exampleScore = ''score-F_m-7b0c.json''"
  using downloadName_runs[of exampleScore]
  by (simp add: exampleScore_def replaceEach_def safeChar_def)

section \<open>Units of a time signature\<close>




lemma takeWhile_all: "list_all P xs \<Longrightarrow> (ys = [] \<or> \<not> P (hd ys)) \<Longrightarrow> takeWhile P (xs @ ys) = xs"
  by (induction xs) (auto simp: takeWhile_eq_Nil_iff hd_in_set intro: takeWhile_eq_Nil_iff[THEN iffD2])

lemma dropWhile_all: "list_all P xs \<Longrightarrow> (ys = [] \<or> \<not> P (hd ys)) \<Longrightarrow> dropWhile P (xs @ ys) = ys"
  by (induction xs) (auto simp: dropWhile_eq_self_iff)





lemma NumberOfDigits_exact: "dec ds < 2 ^ 53 \<Longrightarrow> NumberOfDigits ds = Fin (of_nat (dec ds))"
  by (simp add: NumberOfDigits_def fl_of_nat)



lemma parse_68: "eighthsPerMeasure (parseTimeSignature ''6/8'') = Fin 6" by code_simp
lemma parse_44: "eighthsPerMeasure (parseTimeSignature ''4/4'') = Fin 8" by code_simp
lemma parse_54: "eighthsPerMeasure (parseTimeSignature ''5/4'') = Fin 10" by code_simp
lemma parse_abc: "eighthsPerMeasure (parseTimeSignature ''abc'') = Fin 8" by code_simp
lemma parse_34: "eighthsPerMeasure (parseTimeSignature ''3/4'') = Fin 6" by code_simp
lemma parse_24: "eighthsPerMeasure (parseTimeSignature ''2/4'') = Fin 4" by code_simp
lemma parse_128: "eighthsPerMeasure (parseTimeSignature ''12/8'') = Fin 12" by code_simp
lemma parse_78: "eighthsPerMeasure (parseTimeSignature ''7/8'') = Fin 7" by code_simp

text \<open>
  C3, as stated: \<open>6/8\<close> has 12 units.  The program computes 6.
\<close>

theorem parseTimeSignature_examples_counterexample:
  "eighthsPerMeasure (parseTimeSignature ''6/8'') \<noteq> Fin 12"
  by (simp add: parse_68)

text \<open>
  C3, amended: \<open>6/8\<close> has 6 units, \<open>4/4\<close> has 8, \<open>5/4\<close> has 10, and the malformed
  \<open>abc\<close> has the 8 units of 4/4.
\<close>

theorem parseTimeSignature_examples:
  "eighthsPerMeasure (parseTimeSignature ''6/8'') = Fin 6
   \<and> eighthsPerMeasure (parseTimeSignature ''4/4'') = Fin 8
   \<and> eighthsPerMeasure (parseTimeSignature ''5/4'') = Fin 10
   \<and> eighthsPerMeasure (parseTimeSignature ''abc'') = Fin 8"
  by (simp add: parse_68 parse_44 parse_54 parse_abc)





section \<open>Heights of pitches\<close>

text \<open>
  The offsets as the specification lists them: of the letters (C 0, D 2, E 4, F 5, G 7, A 9,
  B 11) and of the accidentals (\<open>bb\<close> \<open>- 2\<close>, \<open>b\<close> \<open>- 1\<close>, \<open>#\<close> 1, \<open>##\<close> 2, none 0).
\<close>

definition letterOffset :: "char \<Rightarrow> int" where
  "letterOffset c =
     (if c = CHR ''c'' then 0 else if c = CHR ''d'' then 2 else if c = CHR ''e'' then 4
      else if c = CHR ''f'' then 5 else if c = CHR ''g'' then 7 else if c = CHR ''a'' then 9
      else 11)"

definition accidentalSigns :: "string list" where
  "accidentalSigns = ['''', ''#'', ''##'', ''b'', ''bb'']"

definition signOffset :: "string \<Rightarrow> int" where
  "signOffset a =
     (if a = ''bb'' then - 2 else if a = ''b'' then - 1 else if a = ''#'' then 1
      else if a = ''##'' then 2 else 0)"

lemma fl_pos_not_NaN: "fl_pos x \<noteq> NaN"
  by (simp add: fl_pos_def Let_def)

lemma neg_NaN_iff: "neg x = NaN \<longleftrightarrow> x = NaN"
  by (cases x) auto

lemma fl_not_NaN: "fl x \<noteq> NaN"
  by (simp add: fl_def fl_pos_not_NaN neg_NaN_iff)

lemma baseOffsets_letter:
  "c \<in> set ''abcdefg'' \<Longrightarrow> baseOffsets [c] = Some (of_int (letterOffset c))"
  by (auto simp: baseOffsets_def letterOffset_def)

lemma accidentalOffset_sign:
  "a \<in> set accidentalSigns \<Longrightarrow> accidentalOffset a = of_int (signOffset a)"
  by (auto simp: accidentalSigns_def accidentalOffset_def signOffset_def)

lemma signs_accidental: "a \<in> set accidentalSigns \<Longrightarrow> list_all isAccidental a"
  by (auto simp: accidentalSigns_def isAccidental_def)

lemma signs_no_slash: "a \<in> set accidentalSigns \<Longrightarrow> CHR ''/'' \<notin> set a"
  by (auto simp: accidentalSigns_def)

lemma digit_not_accidental: "isDigit c \<Longrightarrow> \<not> isAccidental c"
  by (auto simp: isDigit_def isAccidental_def)

lemma digit_not_slash: "isDigit c \<Longrightarrow> c \<noteq> CHR ''/''"
  by (auto simp: isDigit_def)

lemma pitch_match_form:
  assumes l: "toLowerCase_char l \<in> set ''abcdefg''"
    and a: "list_all isAccidental acc"
    and ds: "ds \<noteq> []" "list_all isDigit ds"
  shows "pitch_match (l # acc @ ds) = Some (l, acc, ds)"
proof -
  have h: "\<not> isAccidental (hd ds)" using ds by (cases ds) (auto simp: digit_not_accidental)
  have t: "takeWhile isAccidental (acc @ ds) = acc" using takeWhile_all[OF a, of ds] h by simp
  have d: "dropWhile isAccidental (acc @ ds) = ds" using dropWhile_all[OF a, of ds] h by simp
  show ?thesis by (simp only: pitch_match_def list.case t d Let_def) (use l ds in simp)
qed

lemma split_slash_form:
  assumes "CHR ''/'' \<notin> set r" "CHR ''/'' \<notin> set t"
  shows "split_slash (r @ CHR ''/'' # t) = (r, Some t)"
proof -
  have r: "list_all (\<lambda>c. c \<noteq> CHR ''/'') r" using assms(1) by (auto simp: list_all_iff)
  have 1: "takeWhile (\<lambda>c. c \<noteq> CHR ''/'') (r @ CHR ''/'' # t) = r"
    using takeWhile_all[OF r, of "CHR ''/'' # t"] by simp
  have 2: "dropWhile (\<lambda>c. c \<noteq> CHR ''/'') (r @ CHR ''/'' # t) = CHR ''/'' # t"
    using dropWhile_all[OF r, of "CHR ''/'' # t"] by simp
  have 3: "takeWhile (\<lambda>c. c \<noteq> CHR ''/'') t = t" using assms(2) by (auto simp: takeWhile_eq_all_conv)
  show ?thesis by (simp only: split_slash_def Let_def 1 2 3 list.case)
qed

lemma height_exact:
  assumes n: "n < 2 ^ 48" and b: "0 \<le> b" "b \<le> 11" and a: "- 2 \<le> a" "a \<le> 2"
  shows "height (Fin (of_nat n)) (of_int b) (of_int a) = Fin (of_int ((int n + 1) * 12 + b + a))"
proof -
  have 1: "num_add (Fin (of_nat n)) (Fin 1) = Fin (of_int (int n + 1))"
    using fl_of_int[of "int n + 1"] n by simp
  have 2: "num_mul (Fin (of_int (int n + 1))) (Fin 12) = Fin (of_int ((int n + 1) * 12))"
    using fl_of_int[of "(int n + 1) * 12"] n by simp
  have 3: "num_add (Fin (of_int ((int n + 1) * 12))) (Fin (of_int b)) = Fin (of_int ((int n + 1) * 12 + b))"
    using fl_of_int[of "(int n + 1) * 12 + b"] n b by simp
  have 4: "num_add (Fin (of_int ((int n + 1) * 12 + b))) (Fin (of_int a)) = Fin (of_int ((int n + 1) * 12 + b + a))"
    using fl_of_int[of "(int n + 1) * 12 + b + a"] n b a by simp
  show ?thesis unfolding height_def 1 2 3 4 ..
qed

lemma letterOffset_range: "0 \<le> letterOffset c \<and> letterOffset c \<le> 11"
  by (simp add: letterOffset_def)

lemma signOffset_range: "- 2 \<le> signOffset a \<and> signOffset a \<le> 2"
  by (simp add: signOffset_def)

lemma parsePitch_form:
  assumes "toLowerCase_char l \<in> set ''abcdefg''" "acc \<in> set accidentalSigns"
    and "ds \<noteq> []" "list_all isDigit ds"
  shows "\<exists>p. parsePitch (l # acc @ ds) = Some p
           \<and> midi p = height (NumberOfDigits ds) (of_int (letterOffset (toLowerCase_char l)))
                        (of_int (signOffset acc))
           \<and> (dec ds < 2 ^ 48 \<longrightarrow>
                midi p = Fin (of_int ((int (dec ds) + 1) * 12 + letterOffset (toLowerCase_char l)
                                       + signOffset acc)))"
proof -
  have m: "pitch_match (l # acc @ ds) = Some (l, acc, ds)"
    using assms by (simp add: pitch_match_form signs_accidental)
  have p: "parsePitch (l # acc @ ds)
           = Some \<lparr>midi = height (NumberOfDigits ds) (of_int (letterOffset (toLowerCase_char l)))
                              (of_int (signOffset acc)),
                   octave = NumberOfDigits ds, letter = [toLowerCase_char l]\<rparr>"
    using assms(1,2) by (simp add: parsePitch_def m baseOffsets_letter accidentalOffset_sign Let_def)
  have "dec ds < 2 ^ 48 \<longrightarrow>
     height (NumberOfDigits ds) (of_int (letterOffset (toLowerCase_char l))) (of_int (signOffset acc))
       = Fin (of_int ((int (dec ds) + 1) * 12 + letterOffset (toLowerCase_char l) + signOffset acc))"
  proof
    assume d: "dec ds < 2 ^ 48"
    then have "NumberOfDigits ds = Fin (of_nat (dec ds))" by (simp add: NumberOfDigits_exact)
    then show "height (NumberOfDigits ds) (of_int (letterOffset (toLowerCase_char l))) (of_int (signOffset acc))
       = Fin (of_int ((int (dec ds) + 1) * 12 + letterOffset (toLowerCase_char l) + signOffset acc))"
      using height_exact[OF d, of "letterOffset (toLowerCase_char l)" "signOffset acc"]
            letterOffset_range[of "toLowerCase_char l"] signOffset_range[of acc] by simp
  qed
  then show ?thesis using p by simp
qed

lemma parsePitch_C4: "map_option midi (parsePitch ''C4'') = Some (Fin 60)" by code_simp
lemma parsePitch_Gs5: "map_option midi (parsePitch ''G#5'') = Some (Fin 80)" by code_simp
lemma parsePitch_Bb3: "map_option midi (parsePitch ''Bb3'') = Some (Fin 58)" by code_simp

text \<open>
  C8.  For a letter A to G in either case, one of the accidentals none, \<open>#\<close>, \<open>##\<close>,
  \<open>b\<close>, \<open>bb\<close> and a string of digits, \<open>parsePitch\<close> returns the height
  \<open>(octave + 1) * 12\<close> plus the offset of the letter plus the offset of the accidental,
  computed as the program computes it from the octave it reads; for an octave below
  \<open>2 ^ 48\<close> no operation rounds and the height is that integer.  \<open>C4\<close> has height
  60, \<open>G#5\<close> 80 and \<open>Bb3\<close> 58.
\<close>

theorem parsePitch_height:
  "(toLowerCase_char l \<in> set ''abcdefg'' \<and> acc \<in> set accidentalSigns
      \<and> ds \<noteq> [] \<and> list_all isDigit ds \<longrightarrow>
      (\<exists>p. parsePitch (l # acc @ ds) = Some p
         \<and> midi p = height (NumberOfDigits ds) (of_int (letterOffset (toLowerCase_char l)))
                      (of_int (signOffset acc))
         \<and> (dec ds < 2 ^ 48 \<longrightarrow>
              midi p = Fin (of_int ((int (dec ds) + 1) * 12 + letterOffset (toLowerCase_char l)
                                     + signOffset acc)))))
   \<and> map_option midi (parsePitch ''C4'') = Some (Fin 60)
   \<and> map_option midi (parsePitch ''G#5'') = Some (Fin 80)
   \<and> map_option midi (parsePitch ''Bb3'') = Some (Fin 58)"
  using parsePitch_form[of l acc ds] parsePitch_C4 parsePitch_Gs5 parsePitch_Bb3 by blast

theorem parsePitch_height_witness:
  "map_option midi (parsePitch ''Eb2'') = Some (Fin 39)"
proof -
  have "toLowerCase_char CHR ''E'' = CHR ''e''" by (simp add: toLowerCase_char_def)
  moreover have "dec ''2'' = 2" by (simp add: dec_def digit_val_def)
  ultimately show ?thesis
    using parsePitch_height[of "CHR ''E''" "''b''" "''2''"]
    by (auto simp: accidentalSigns_def isDigit_def letterOffset_def signOffset_def)
qed

text \<open>
  C10.  \<open>parsePitch\<close> on a letter, an accidental (none, \<open>#\<close>, \<open>##\<close>, \<open>b\<close>, \<open>bb\<close>) and
  an octave, and \<open>noteToMidi\<close> on the same letter in either case, the accidental, a
  slash and the octave, return the same height, whatever the octave.
\<close>

theorem noteToMidi_parsePitch:
  assumes "toLowerCase_char l' = toLowerCase_char l" "toLowerCase_char l \<in> set ''abcdefg''"
    and "acc \<in> set accidentalSigns" and "ds \<noteq> []" "list_all isDigit ds"
  shows "map_option midi (parsePitch (l' # acc @ ds)) = Some (noteToMidi sn (l # acc @ ''/'' @ ds))"
proof -
  have m: "pitch_match (l' # acc @ ds) = Some (l', acc, ds)"
    using assms by (simp add: pitch_match_form signs_accidental)
  have lsl: "l \<noteq> CHR ''/''" using assms(2) by (auto simp: toLowerCase_char_def)
  have "CHR ''/'' \<notin> set (l # acc)" using lsl signs_no_slash[OF assms(3)] by simp
  moreover have "CHR ''/'' \<notin> set ds" using assms(5) by (auto simp: list_all_iff dest: digit_not_slash)
  ultimately have s: "split_slash (l # acc @ CHR ''/'' # ds) = (l # acc, Some ds)"
    using split_slash_form[of "l # acc" ds] by simp
  have n: "StringToNumber sn ds = NumberOfDigits ds" using assms(4,5) by (simp add: StringToNumber_def)
  have nn: "NumberOfDigits ds \<noteq> NaN" by (simp add: NumberOfDigits_def fl_not_NaN)
  show ?thesis
    using assms(1) nn by (simp add: parsePitch_def m noteToMidi_def s n Let_def)
qed

theorem noteToMidi_parsePitch_witness:
  "map_option midi (parsePitch ''Bb3'') = Some (noteToMidi (\<lambda>s. NaN) ''bb/3'')"
proof -
  have "toLowerCase_char CHR ''B'' = CHR ''b''" "toLowerCase_char CHR ''b'' = CHR ''b''"
    by (simp_all add: toLowerCase_char_def)
  then show ?thesis
    using noteToMidi_parsePitch[of "CHR ''B''" "CHR ''b''" "''b''" "''3''" "\<lambda>s. NaN"]
    by (simp add: accidentalSigns_def isDigit_def)
qed


section \<open>Import of a file\<close>

text \<open>
  The validation as C7 words it: a snapshot fails when its key or its time signature is
  absent or not a non-empty string, its tempo is not a finite number, its measures are
  not an array of arrays, an event has a duration outside q, 8, h, or an event that is
  no rest has no non-empty pitch string.  \<open>failsValidationCoerced\<close> differs in the
  tempo: it is converted to a number first (\<open>Number(data.tempo)\<close>), and the result of
  that has to be finite.
\<close>

definition finiteNumber :: "json option \<Rightarrow> bool" where
  "finiteNumber v = (case v of Some (JNum x) \<Rightarrow> isFinite x | _ \<Rightarrow> False)"

definition eventFails :: "json \<Rightarrow> bool" where
  "eventFails n =
     (durationOf (field n ''duration'') = None
      \<or> (\<not> truthy (field n ''isRest'') \<and> \<not> nonEmptyString (field n ''key'')))"

definition measuresFail :: "json option \<Rightarrow> bool" where
  "measuresFail v =
     (case v of
        Some (JArr ms) \<Rightarrow> list_ex (\<lambda>m. case m of JArr ns \<Rightarrow> list_ex eventFails ns | _ \<Rightarrow> True) ms
      | _ \<Rightarrow> True)"

definition failsValidation :: "json \<Rightarrow> bool" where
  "failsValidation raw =
     (\<not> nonEmptyString (field raw ''key'') \<or> \<not> nonEmptyString (field raw ''timeSig'')
      \<or> \<not> finiteNumber (field raw ''tempo'') \<or> measuresFail (field raw ''measures''))"

definition failsValidationCoerced :: "Host \<Rightarrow> json \<Rightarrow> bool" where
  "failsValidationCoerced host raw =
     (\<not> nonEmptyString (field raw ''key'') \<or> \<not> nonEmptyString (field raw ''timeSig'')
      \<or> \<not> isFinite (ToNumber host (field raw ''tempo'')) \<or> measuresFail (field raw ''measures''))"

lemma collect_Rejected_iff: "collect f xs = Rejected \<longleftrightarrow> (\<exists>x\<in>set xs. f x = Rejected)"
  by (induction xs) (auto split: normalized.splits)

lemma field_not_object: "\<not> isObject v \<Longrightarrow> field v name = None"
  by (cases v) (auto simp: field_def)

lemma field_array: "field (JArr xs) name = None"
  by (simp add: field_def)

lemma normalizeNote_Rejected_iff: "normalizeNote n = Rejected \<longleftrightarrow> eventFails n"
proof (cases "isObject n")
  case False
  then show ?thesis by (simp add: normalizeNote_def eventFails_def field_not_object)
next
  case True
  then show ?thesis
    by (auto simp: normalizeNote_def eventFails_def Let_def split: option.splits prod.splits)
qed

lemma normalizeMeasure_Rejected_iff:
  "normalizeMeasure m = Rejected \<longleftrightarrow> (case m of JArr ns \<Rightarrow> list_ex eventFails ns | _ \<Rightarrow> True)"
  by (cases m) (auto simp: normalizeMeasure_def collect_Rejected_iff normalizeNote_Rejected_iff list_ex_iff)

lemma measures_Rejected_iff:
  "measuresFail v \<longleftrightarrow> (case v of Some (JArr ms) \<Rightarrow> collect normalizeMeasure ms = Rejected | _ \<Rightarrow> True)"
  by (auto simp: measuresFail_def collect_Rejected_iff normalizeMeasure_Rejected_iff list_ex_iff
           split: option.splits json.splits)

lemma nonEmptyString_object: "nonEmptyString (field raw name) \<Longrightarrow> isObject raw"
  by (cases raw) (auto simp: field_def)

lemma returnedScore_not_Rejected: "returnedScore host raw t d lo hi nm \<noteq> Rejected"
  by (simp add: returnedScore_def Let_def split: option.splits json.splits)

lemma normalizeImportedScore_Rejected_iff:
  "normalizeImportedScore host raw = Rejected \<longleftrightarrow> failsValidationCoerced host raw"
proof (cases "nonEmptyString (field raw ''key'') \<and> nonEmptyString (field raw ''timeSig'')
              \<and> isFinite (ToNumber host (field raw ''tempo''))")
  case False
  then show ?thesis
    by (auto simp: normalizeImportedScore_def failsValidationCoerced_def Let_def)
next
  case True
  then have o: "isObject raw" using nonEmptyString_object by blast
  have f: "failsValidationCoerced host raw = measuresFail (field raw ''measures'')"
    using True by (simp add: failsValidationCoerced_def)
  have n: "normalizeImportedScore host raw =
      (case field raw ''measures'' of
         Some (JArr measuresRaw) \<Rightarrow>
           (case collect normalizeMeasure measuresRaw of
              Rejected \<Rightarrow> Rejected
            | Untyped \<Rightarrow> Untyped
            | Normal nm \<Rightarrow>
                returnedScore host raw (ToNumber host (field raw ''tempo''))
                  (if isFinite (ToNumber host (field raw ''noteDensity''))
                   then ToNumber host (field raw ''noteDensity'') else Fin 70)
                  (case field raw ''lowestPitch'' of Some (JStr s) \<Rightarrow> s | _ \<Rightarrow> ''C4'')
                  (case field raw ''highestPitch'' of Some (JStr s) \<Rightarrow> s | _ \<Rightarrow> ''G5'') nm)
       | _ \<Rightarrow> Rejected)"
    using True o by (simp add: normalizeImportedScore_def Let_def)
  show ?thesis
    unfolding n f measures_Rejected_iff
    by (simp add: returnedScore_not_Rejected split: option.splits json.splits normalized.splits)
qed

definition stringTempo :: json where
  "stringTempo =
     JObj [(''key'', JStr ''C''), (''timeSig'', JStr ''4/4''), (''tempo'', JStr ''120''),
           (''measures'', JArr [])]"

lemma Number_120: "NumberOfDigits ''120'' = Fin 120"
proof -
  have "dec ''120'' = 120" by (simp add: dec_def digit_val_def)
  then show ?thesis using NumberOfDigits_exact[of "''120''"] by simp
qed

lemma stringTempo_imported:
  "normalizeImportedScore exampleHost stringTempo
   = Normal \<lparr>id = ''0e6f'', key = ''C'', bars = Fin 1, tempo = Fin 120, timeSig = ''4/4'',
             measures = [], createdAt = Fin 1700000000001, noteDensity = Fin 70,
             highestPitch = Some ''G5'', lowestPitch = Some ''C4''\<rparr>"
  by (simp add: normalizeImportedScore_def returnedScore_def stringTempo_def field_def exampleHost_def
        StringToNumber_def isDigit_def Number_120 Let_def)

text \<open>
  C7, as stated: a snapshot that fails the validation changes no state.  A snapshot whose
  tempo is the string \<open>120\<close> has a tempo that is not a number, yet the program imports
  it, with tempo 120, and makes it the score.
\<close>

theorem import_invalid_no_change_counterexample:
  "failsValidation stringTempo
   \<and> handleFileSelected exampleHost (Parsed stringTempo) exampleState
       \<noteq> Some (exampleState\<lparr>alerts := alerts exampleState @ [ImportInvalid]\<rparr>)"
proof -
  have "failsValidation stringTempo"
    by (simp add: failsValidation_def stringTempo_def field_def finiteNumber_def)
  moreover have "score (the (handleFileSelected exampleHost (Parsed stringTempo) exampleState))
                 \<noteq> score exampleState"
    by (simp add: handleFileSelected_def stringTempo_imported Let_def exampleState_def exampleScore_def)
  ultimately show ?thesis by auto
qed

text \<open>
  C7, amended: the import returns \<open>null\<close> exactly for the snapshots that fail the
  validation with the tempo converted to a number; for each of them, and for a file
  that cannot be parsed, the state after the import is the state before it with one
  more alert: the score, the parameters, the library and the storage are as they were.
\<close>

theorem import_invalid_no_change:
  "(failsValidationCoerced host raw \<longleftrightarrow> normalizeImportedScore host raw = Rejected)
   \<and> (failsValidationCoerced host raw \<longrightarrow>
        handleFileSelected host (Parsed raw) st = Some (st\<lparr>alerts := alerts st @ [ImportInvalid]\<rparr>))
   \<and> handleFileSelected host Unreadable st = Some (st\<lparr>alerts := alerts st @ [ImportFailed]\<rparr>)"
  by (auto simp: handleFileSelected_def normalizeImportedScore_Rejected_iff[symmetric])

theorem import_invalid_no_change_witness:
  "handleFileSelected exampleHost
     (Parsed (JObj [(''key'', JStr ''C''), (''timeSig'', JStr ''4/4''), (''measures'', JArr [])]))
     exampleState
   = Some (exampleState\<lparr>alerts := [ImportInvalid]\<rparr>)"
  using import_invalid_no_change[of exampleHost
          "JObj [(''key'', JStr ''C''), (''timeSig'', JStr ''4/4''), (''measures'', JArr [])]" exampleState]
  by (simp add: failsValidationCoerced_def field_def exampleState_def)

section \<open>Export and import\<close>

text \<open>
  A score is \<open>exportable\<close> when the import accepts what the export writes of it and
  finds every field there: the key and the time signature are not empty, the tempo, the
  bars and the density are finite, both pitches are present, and every note that is no
  rest has a key.
\<close>

definition exportable :: "GeneratedScore \<Rightarrow> bool" where
  "exportable s =
     (key s \<noteq> [] \<and> timeSig s \<noteq> [] \<and> isFinite (tempo s) \<and> isFinite (bars s)
      \<and> isFinite (noteDensity s) \<and> lowestPitch s \<noteq> None \<and> highestPitch s \<noteq> None
      \<and> list_all (list_all (\<lambda>n. isRest n \<or> NoteSpec.key n \<noteq> [])) (measures s))"

lemma collect_map_Normal:
  "(\<And>x. x \<in> set xs \<Longrightarrow> f (g x) = Normal x) \<Longrightarrow> collect f (map g xs) = Normal xs"
  by (induction xs) auto

lemma durationOf_durationString: "durationOf (Some (JStr (durationString d))) = Some d"
  by (cases d) auto

lemma normalizeNote_noteJSON:
  assumes "isRest n \<or> NoteSpec.key n \<noteq> []"
  shows "normalizeNote (noteJSON nulls n) = Normal n"
proof -
  have d: "field (noteJSON nulls n) ''duration'' = Some (JStr (durationString (duration n)))"
    by (simp add: noteJSON_def field_def split: option.splits)
  have r: "field (noteJSON nulls n) ''isRest'' = Some (JBool (isRest n))"
    by (simp add: noteJSON_def field_def split: option.splits)
  have k: "field (noteJSON nulls n) ''key'' = Some (JStr (NoteSpec.key n))"
    by (simp add: noteJSON_def field_def)
  have a: "accidentalOrNull (field (noteJSON nulls n) ''accidental'') = Some (accidental n)"
    by (simp add: noteJSON_def field_def split: option.splits)
  have o: "isObject (noteJSON nulls n)" by (simp add: noteJSON_def)
  show ?thesis
    using assms
    by (simp add: normalizeNote_def d r k a o durationOf_durationString Let_def del: durationOf.simps)
qed

lemma normalizeMeasure_exported:
  assumes "list_all (\<lambda>n. isRest n \<or> NoteSpec.key n \<noteq> []) m"
  shows "normalizeMeasure (JArr (map (noteJSON nulls) m)) = Normal m"
  using assms
  by (simp add: normalizeMeasure_def collect_map_Normal normalizeNote_noteJSON list_all_iff)

lemma measures_exported:
  assumes "list_all (list_all (\<lambda>n. isRest n \<or> NoteSpec.key n \<noteq> [])) ms"
  shows "collect normalizeMeasure (map (\<lambda>m. JArr (map (noteJSON nulls) m)) ms) = Normal ms"
  using assms by (simp add: collect_map_Normal normalizeMeasure_exported list_all_iff)

lemma exported_fields:
  assumes "lowestPitch s = Some lo" "highestPitch s = Some hi"
  shows "field (exportedJSON nulls s) ''id'' = Some (JStr (id s))"
    and "field (exportedJSON nulls s) ''key'' = Some (JStr (key s))"
    and "field (exportedJSON nulls s) ''bars'' = Some (jsonNumber (bars s))"
    and "field (exportedJSON nulls s) ''tempo'' = Some (jsonNumber (tempo s))"
    and "field (exportedJSON nulls s) ''timeSig'' = Some (JStr (timeSig s))"
    and "field (exportedJSON nulls s) ''noteDensity'' = Some (jsonNumber (noteDensity s))"
    and "field (exportedJSON nulls s) ''lowestPitch'' = Some (JStr lo)"
    and "field (exportedJSON nulls s) ''highestPitch'' = Some (JStr hi)"
    and "field (exportedJSON nulls s) ''measures''
           = Some (JArr (map (\<lambda>m. JArr (map (noteJSON nulls) m)) (measures s)))"
    and "field (exportedJSON nulls s) ''createdAt'' = Some (jsonNumber (createdAt s))"
  using assms by (simp_all add: exportedJSON_def field_def optionalString_def)

lemma ToNumber_jsonNumber: "isFinite x \<Longrightarrow> ToNumber host (Some (jsonNumber x)) = x"
  by (simp add: jsonNumber_def)

lemma exported_normalized:
  assumes "exportable s"
  shows "normalizeImportedScore host (exportedJSON nulls s)
         = Normal (s\<lparr>id := (if id s = [] then randomUUID host else id s),
                      createdAt := (if isFinite (createdAt s) \<and> createdAt s \<noteq> Fin 0
                                    then createdAt s else dateNow host)\<rparr>)"
proof -
  obtain lo hi where p: "lowestPitch s = Some lo" "highestPitch s = Some hi"
    using assms by (auto simp: exportable_def)
  note f = exported_fields[OF p, of nulls]
  have fin: "isFinite (tempo s)" "isFinite (bars s)" "isFinite (noteDensity s)"
    and ne: "key s \<noteq> []" "timeSig s \<noteq> []"
    and ms: "list_all (list_all (\<lambda>n. isRest n \<or> NoteSpec.key n \<noteq> [])) (measures s)"
    using assms by (simp_all add: exportable_def)
  have o: "isObject (exportedJSON nulls s)" by (simp add: exportedJSON_def)
  have c: "(if truthy (Some (jsonNumber (createdAt s))) \<and> isFinite (ToNumber host (Some (jsonNumber (createdAt s))))
            then ToNumber host (Some (jsonNumber (createdAt s))) else dateNow host)
           = (if isFinite (createdAt s) \<and> createdAt s \<noteq> Fin 0 then createdAt s else dateNow host)"
    by (cases "createdAt s") (auto simp: jsonNumber_def)
  have r: "returnedScore host (exportedJSON nulls s) (tempo s) (noteDensity s) lo hi (measures s)
           = Normal (s\<lparr>id := (if id s = [] then randomUUID host else id s),
                      createdAt := (if isFinite (createdAt s) \<and> createdAt s \<noteq> Fin 0
                                    then createdAt s else dateNow host)\<rparr>)"
    unfolding returnedScore_def f Let_def c
    using fin p by (simp add: ToNumber_jsonNumber)
  show ?thesis
    unfolding normalizeImportedScore_def f Let_def
    using fin ne o by (simp add: ToNumber_jsonNumber measures_exported[OF ms] r)
qed

text \<open>
  C5, as stated: for every score the identifier and the time stamp are preserved
  whenever the snapshot has them.  A score created at time 0 has its time stamp in the
  snapshot, and the import replaces it by the current time.
\<close>

theorem export_import_counterexample:
  "field (exportedJSON False (exampleScore\<lparr>createdAt := Fin 0\<rparr>)) ''createdAt''
     = Some (JNum (createdAt (exampleScore\<lparr>createdAt := Fin 0\<rparr>)))
   \<and> normalizeImportedScore exampleHost (exportedJSON False (exampleScore\<lparr>createdAt := Fin 0\<rparr>))
       = Normal (exampleScore\<lparr>createdAt := dateNow exampleHost\<rparr>)
   \<and> dateNow exampleHost \<noteq> createdAt (exampleScore\<lparr>createdAt := Fin 0\<rparr>)"
proof -
  have e: "exportable (exampleScore\<lparr>createdAt := Fin 0\<rparr>)"
    by (simp add: exportable_def exampleScore_def)
  have p: "lowestPitch (exampleScore\<lparr>createdAt := Fin 0\<rparr>) = Some ''C4''"
          "highestPitch (exampleScore\<lparr>createdAt := Fin 0\<rparr>) = Some ''G5''"
    by (simp_all add: exampleScore_def)
  have "field (exportedJSON False (exampleScore\<lparr>createdAt := Fin 0\<rparr>)) ''createdAt''
        = Some (JNum (createdAt (exampleScore\<lparr>createdAt := Fin 0\<rparr>)))"
    by (simp add: exported_fields[OF p] jsonNumber_def)
  moreover have "id exampleScore \<noteq> []" by (simp add: exampleScore_def)
  ultimately show ?thesis
    using exported_normalized[OF e, of exampleHost False]
    by (simp add: exampleHost_def)
qed

text \<open>
  C5, amended: for every exportable score, importing what the export writes returns a
  score with the same key, time signature, tempo, bars, measures (keys, accidentals,
  durations and rest flags), density and pitches.  The identifier is kept unless it is
  empty, and the time stamp unless it is 0 or not finite; then they are made anew.
\<close>

theorem export_import:
  assumes "exportable s"
  shows "normalizeImportedScore host (exportedJSON nulls s)
         = Normal (s\<lparr>id := (if id s = [] then randomUUID host else id s),
                      createdAt := (if isFinite (createdAt s) \<and> createdAt s \<noteq> Fin 0
                                    then createdAt s else dateNow host)\<rparr>)"
proof -
  obtain lo hi where p: "lowestPitch s = Some lo" "highestPitch s = Some hi"
    using assms by (auto simp: exportable_def)
  note f = exported_fields[OF p, of nulls]
  have fin: "isFinite (tempo s)" "isFinite (bars s)" "isFinite (noteDensity s)"
    and ne: "key s \<noteq> []" "timeSig s \<noteq> []"
    and ms: "list_all (list_all (\<lambda>n. isRest n \<or> NoteSpec.key n \<noteq> [])) (measures s)"
    using assms by (simp_all add: exportable_def)
  have o: "isObject (exportedJSON nulls s)" by (simp add: exportedJSON_def)
  have c: "(if truthy (Some (jsonNumber (createdAt s))) \<and> isFinite (ToNumber host (Some (jsonNumber (createdAt s))))
            then ToNumber host (Some (jsonNumber (createdAt s))) else dateNow host)
           = (if isFinite (createdAt s) \<and> createdAt s \<noteq> Fin 0 then createdAt s else dateNow host)"
    by (cases "createdAt s") (auto simp: jsonNumber_def)
  have r: "returnedScore host (exportedJSON nulls s) (tempo s) (noteDensity s) lo hi (measures s)
           = Normal (s\<lparr>id := (if id s = [] then randomUUID host else id s),
                      createdAt := (if isFinite (createdAt s) \<and> createdAt s \<noteq> Fin 0
                                    then createdAt s else dateNow host)\<rparr>)"
    unfolding returnedScore_def f Let_def c
    using fin p by (simp add: ToNumber_jsonNumber)
  show ?thesis
    unfolding normalizeImportedScore_def f Let_def
    using fin ne o by (simp add: ToNumber_jsonNumber measures_exported[OF ms] r)
qed

theorem export_import_witness:
  "normalizeImportedScore exampleHost (exportedJSON True exampleScore) = Normal exampleScore"
  using export_import[of exampleScore exampleHost True]
  by (simp add: exportable_def exampleScore_def)


section \<open>The units of a generated measure\<close>

text \<open>
  The time signatures the program offers, the length of a duration in eighths (q 2,
  8 1, h 4) and the sum of these lengths over the events of a measure.
\<close>

definition timeSignatureOptions :: "string list" where
  "timeSignatureOptions = [''4/4'', ''3/4'', ''2/4'', ''6/8'', ''12/8'', ''5/4'', ''7/8'']"

fun unitLength :: "Duration \<Rightarrow> rat" where
  "unitLength Dq = 2"
| "unitLength D8 = 1"
| "unitLength Dh = 4"

definition measureUnits :: "NoteSpec list \<Rightarrow> rat" where
  "measureUnits notes = sum_list (map (\<lambda>n. unitLength (duration n)) notes)"

lemma pool_unitLength:
  "d \<in> set durationPool \<Longrightarrow> unitLength (PoolEntry.duration d) = eighths d"
  by (auto simp: durationPool_def)

lemma pool_eighths_nat: "d \<in> set durationPool \<Longrightarrow> eighths d \<in> {1, 2, 4}"
  by (auto simp: durationPool_def)

lemma makeEvent_duration:
  "duration (snd (fst (makeEvent env cf allowed w))) = PoolEntry.duration (fst (fst (makeEvent env cf allowed w)))"
  by (simp add: makeEvent_def Let_def split: prod.splits)

lemma allowed_nonempty: "1 \<le> e \<Longrightarrow> filter (\<lambda>d. eighths d \<le> e) durationPool \<noteq> []"
  by (auto simp: durationPool_def)

lemma fill_step:
  assumes "0 < e" "filter (\<lambda>d. eighths d \<le> e) durationPool \<noteq> []"
  shows "fill env cf e notes w =
     fill env cf (e - eighths (fst (fst (makeEvent env cf (filter (\<lambda>d. eighths d \<le> e) durationPool) w))))
       (notes @ [snd (fst (makeEvent env cf (filter (\<lambda>d. eighths d \<le> e) durationPool) w))])
       (snd (makeEvent env cf (filter (\<lambda>d. eighths d \<le> e) durationPool) w))"
  using assms by (subst fill.simps) (simp add: Let_def split: prod.splits)

lemma fill_done: "e \<le> 0 \<Longrightarrow> fill env cf e notes w = (notes, w)"
  by (subst fill.simps) simp

lemma measureUnits_append: "measureUnits (xs @ [x]) = measureUnits xs + unitLength (duration x)"
  by (simp add: measureUnits_def)

lemma fill_units:
  "measureUnits (fst (fill env cf (of_nat k) ns w)) = measureUnits ns + of_nat k"
proof (induction k arbitrary: ns w rule: less_induct)
  case (less k)
  show ?case
  proof (cases "k = 0")
    case True
    then show ?thesis by (simp add: fill_done)
  next
    case False
    define e :: rat where "e = of_nat k"
    define allowed where "allowed = filter (\<lambda>d. eighths d \<le> e) durationPool"
    define r where "r = makeEvent env cf allowed w"
    have e1: "1 \<le> e" using False by (simp add: e_def)
    have ne: "allowed \<noteq> []" unfolding allowed_def using allowed_nonempty[OF e1] .
    have ch: "fst (fst r) \<in> set allowed" unfolding r_def using makeEvent_choice[OF ne] .
    then have pool: "fst (fst r) \<in> set durationPool" and le: "eighths (fst (fst r)) \<le> e"
      by (auto simp: allowed_def)
    obtain j :: nat where j: "eighths (fst (fst r)) = of_nat j" "1 \<le> j"
    proof -
      have "eighths (fst (fst r)) \<in> {1, 2, 4}" using pool by (rule pool_eighths_nat)
      then consider "eighths (fst (fst r)) = of_nat 1" | "eighths (fst (fst r)) = of_nat 2"
        | "eighths (fst (fst r)) = of_nat 4" by auto
      then show ?thesis using that by cases auto
    qed
    have jk: "j \<le> k" using le j by (simp add: e_def)
    have sub: "e - eighths (fst (fst r)) = of_nat (k - j)" using j jk by (simp add: e_def of_nat_diff)
    have "fill env cf e ns w = fill env cf (of_nat (k - j)) (ns @ [snd (fst r)]) (snd r)"
      using fill_step[of e env cf ns w] e1 ne sub by (simp add: allowed_def r_def)
    then have "measureUnits (fst (fill env cf e ns w))
               = measureUnits (ns @ [snd (fst r)]) + of_nat (k - j)"
      using less[of "k - j"] j jk False by simp
    also have "\<dots> = measureUnits ns + unitLength (duration (snd (fst r))) + of_nat (k - j)"
      by (simp add: measureUnits_append)
    also have "unitLength (duration (snd (fst r))) = of_nat j"
      using makeEvent_duration[of env cf allowed w] pool_unitLength[OF pool] j by (simp add: r_def)
    finally show ?thesis using jk by (simp add: e_def of_nat_diff)
  qed
qed

lemma measuresLoop_units:
  "list_all (\<lambda>m. measureUnits m = of_nat k) (fst (measuresLoop env cf (of_nat k) n w))
   \<and> length (fst (measuresLoop env cf (of_nat k) n w)) = n"
proof (induction n arbitrary: w)
  case 0
  show ?case by simp
next
  case (Suc n)
  have "measureUnits (fst (fill env cf (of_nat k) [] w)) = of_nat k"
    using fill_units[of env cf k "[]" w] by (simp add: measureUnits_def)
  then show ?case using Suc by (simp add: Let_def case_prod_beta)
qed

lemma supported_units:
  "ts \<in> set timeSignatureOptions \<Longrightarrow>
     \<exists>k. eighthsPerMeasure (parseTimeSignature ts) = Fin (of_nat k) \<and> k < 2 ^ 53"
proof -
  assume "ts \<in> set timeSignatureOptions"
  then consider "ts = ''4/4''" | "ts = ''3/4''" | "ts = ''2/4''" | "ts = ''6/8''"
    | "ts = ''12/8''" | "ts = ''5/4''" | "ts = ''7/8''"
    by (auto simp: timeSignatureOptions_def)
  then show ?thesis
  proof cases
    case 1 then show ?thesis using parse_44 by (intro exI[of _ 8]) simp
  next
    case 2 then show ?thesis using parse_34 by (intro exI[of _ 6]) simp
  next
    case 3 then show ?thesis using parse_24 by (intro exI[of _ 4]) simp
  next
    case 4 then show ?thesis using parse_68 by (intro exI[of _ 6]) simp
  next
    case 5 then show ?thesis using parse_128 by (intro exI[of _ 12]) simp
  next
    case 6 then show ?thesis using parse_54 by (intro exI[of _ 10]) simp
  next
    case 7 then show ?thesis using parse_78 by (intro exI[of _ 7]) simp
  qed
qed

text \<open>
  C1.  For every key, bar count, density and pitch range and every time signature the
  program offers: in every measure \<open>generateMeasures\<close> returns, the lengths of the events
  sum to the \<open>eighthsPerMeasure\<close> of the time signature; and it does return measures, as
  many as the bar count asks for, whenever the key manager accepts the key and the bar
  count is one the loop over the bars comes to the end of.
\<close>

theorem generateMeasures_units:
  assumes "ts \<in> set timeSignatureOptions"
  shows "(\<forall>ms m. generateMeasures env ky br ts density lo hi = Inr ms \<and> m \<in> set ms
            \<longrightarrow> Fin (measureUnits m) = eighthsPerMeasure (parseTimeSignature ts))
         \<and> (\<forall>k n. newKeyManager env ky = Some k \<and> rounds br = Some n
              \<longrightarrow> (\<exists>ms. generateMeasures env ky br ts density lo hi = Inr ms \<and> length ms = n))"
proof -
  obtain k where k: "eighthsPerMeasure (parseTimeSignature ts) = Fin (of_nat k)" "k < 2 ^ 53"
    using supported_units[OF assms] by blast
  have lt: "\<not> (2 ^ 53 \<le> (of_nat k :: rat))"
  proof -
    have "(of_nat k :: rat) < of_nat (2 ^ 53)" using k(2) by (simp only: of_nat_less_iff)
    then show ?thesis by simp
  qed
  show ?thesis
  proof (intro conjI allI impI)
    fix ms m
    assume a: "generateMeasures env ky br ts density lo hi = Inr ms \<and> m \<in> set ms"
    then obtain k0 n where g: "newKeyManager env ky = Some k0" "rounds br = Some n" "n \<noteq> 0"
      "ms = fst (measuresLoop env (settings density lo hi) (of_nat k) n \<lparr>draws = 0, manager = k0\<rparr>)"
      using k lt by (auto simp: generateMeasures_def Let_def split: option.splits if_splits)
    have "list_all (\<lambda>m. measureUnits m = of_nat k) ms"
      using measuresLoop_units[of k env "settings density lo hi" n] g(4) by simp
    then show "Fin (measureUnits m) = eighthsPerMeasure (parseTimeSignature ts)"
      using a k by (simp add: list_all_iff)
  next
    fix k0 n
    assume a: "newKeyManager env ky = Some k0 \<and> rounds br = Some n"
    show "\<exists>ms. generateMeasures env ky br ts density lo hi = Inr ms \<and> length ms = n"
      using a k lt measuresLoop_units[of k env "settings density lo hi" n "\<lparr>draws = 0, manager = k0\<rparr>"]
      by (simp add: generateMeasures_def Let_def)
  qed
qed

theorem generateMeasures_units_witness:
  "\<exists>ms. generateMeasures exampleEnv ''C'' (Fin 2) ''6/8'' (Fin 70) (Some ''C4'') (Some ''G5'') = Inr ms
         \<and> length ms = 2 \<and> list_all (\<lambda>m. measureUnits m = 6) ms"
proof -
  have r: "rounds (Fin 2) = Some 2" by (simp add: rounds_def)
  have k: "newKeyManager exampleEnv ''C'' = Some ()" by (simp add: exampleEnv_def)
  have t: "''6/8'' \<in> set timeSignatureOptions" by (simp add: timeSignatureOptions_def)
  show ?thesis
    using generateMeasures_units[OF t, of exampleEnv "''C''" "Fin 2" "Fin 70" "Some ''C4''" "Some ''G5''"]
          r k parse_68
    by (auto simp: list_all_iff)
qed


section \<open>The range of the generated pitches\<close>

text \<open>
  The height of an event is \<open>noteToMidi\<close> of its key.  The \<open>combinations\<close> of a list of
  octaves are the pairs of an octave and one of the seven letters, the letters running
  inside the octaves.  \<open>misses env lo hi ps k\<close> takes a key manager in state \<open>k\<close> through
  the pairs \<open>ps\<close>, selecting the note of each letter in turn: it is \<open>None\<close> as soon as
  the height of a selected note lies from \<open>lo\<close> to \<open>hi\<close>, and the last state of the
  manager when no height does.  \<open>noFit env lo hi ps k\<close>: with the notes the manager
  selects in state \<open>k\<close>, no pair of \<open>ps\<close> has a height from \<open>lo\<close> to \<open>hi\<close>.  A manager is
  \<open>stateless\<close> when the note it selects for a letter is the same in every state.
  \<open>middle\<close> is the entry \<open>validOctaves[Math.floor(validOctaves.length / 2)]\<close>.
\<close>

definition eventHeight :: "'k Env \<Rightarrow> NoteSpec \<Rightarrow> number" where
  "eventHeight env ev = noteToMidi (strnum env) (NoteSpec.key ev)"























text \<open>
  Runs of the generator, one bar of 1/8 at density 0, with \<open>Math.random()\<close> always a
  half and a manager that selects the natural notes.  Every random attempt picks
  \<open>f/4\<close>.  Between \<open>E4\<close> and \<open>E4\<close> the 50 attempts fail and the scan finds \<open>e/4\<close>.
\<close>

definition octaveFour :: "rat \<Rightarrow> rat \<Rightarrow> Settings" where
  "octaveFour lo hi = \<lparr>lowestMidi = Fin lo, highestMidi = Fin hi, validOctaves = [4],
      densityRatio = Fin 0, restChance = Fin (3602879701896397 / 9007199254740992)\<rparr>"


lemma settings_Cs4: "settings (Fin 0) (Some ''C#4'') (Some ''C#4'') = octaveFour 61 61"
  unfolding octaveFour_def by code_simp

lemma weightedChoice_single: "fst (weightedChoice env [x] ws w) = x"
  by (simp add: weightedChoice_def Let_def case_prod_beta split: option.splits)

lemma random_example: "fst (Math_random exampleEnv w) = Fin (1 / 2)"
  by (simp add: Math_random_def exampleEnv_def)

lemma half_one: "Math_floor (num_mul (Fin (1 / 2)) (Fin 1)) = Fin 0" by code_simp
lemma half_seven: "Math_floor (num_mul (Fin (1 / 2)) (Fin 7)) = Fin 3" by code_simp

lemma choice_octave: "fst (randomChoice exampleEnv [4] w) = (4::nat)"
  using half_one by (simp add: randomChoice_def case_prod_beta random_example)

lemma choice_letter: "fst (randomChoice exampleEnv baseNotes w) = ''f''"
  using half_seven by (simp add: randomChoice_def case_prod_beta random_example baseNotes_def)

lemma select_example: "fst (select exampleEnv lt w) = \<lparr>sel_note = lt, sel_accidental = None\<rparr>"
  by (simp add: select_def exampleEnv_def)

lemma noteKey_four: "noteKey \<lparr>sel_note = [l], sel_accidental = None\<rparr> 4 = [l, CHR ''/'', CHR ''4'']"
  by (simp add: noteKey_def ToString_nat.simps)

lemma height_c4: "noteToMidi (\<lambda>s. NaN) ''c/4'' = Fin 60" by code_simp
lemma height_d4: "noteToMidi (\<lambda>s. NaN) ''d/4'' = Fin 62" by code_simp
lemma height_e4: "noteToMidi (\<lambda>s. NaN) ''e/4'' = Fin 64" by code_simp
lemma height_f4: "noteToMidi (\<lambda>s. NaN) ''f/4'' = Fin 65" by code_simp
lemma height_g4: "noteToMidi (\<lambda>s. NaN) ''g/4'' = Fin 67" by code_simp
lemma height_a4: "noteToMidi (\<lambda>s. NaN) ''a/4'' = Fin 69" by code_simp
lemma height_b4: "noteToMidi (\<lambda>s. NaN) ''b/4'' = Fin 71" by code_simp

lemmas heights4 = height_c4 height_d4 height_e4 height_f4 height_g4 height_a4 height_b4

lemma strnum_example: "strnum exampleEnv = (\<lambda>s. NaN)"
  by (simp add: exampleEnv_def)

lemma attempt_example:
  assumes "\<not> (lo \<le> 65 \<and> 65 \<le> hi)"
  shows "fst (attempt exampleEnv (octaveFour lo hi) n cur w) = False"
proof (induction n arbitrary: cur w)
  case 0
  show ?case by simp
next
  case (Suc n)
  have v: "validOctaves (octaveFour lo hi) = [4]" by (simp add: octaveFour_def)
  have out: "\<not> inRange (octaveFour lo hi) (Fin 65)"
    using assms by (simp add: inRange_def octaveFour_def)
  show ?case
    using Suc out
    by (simp add: case_prod_beta Let_def v choice_octave choice_letter select_example noteKey_four
          strnum_example height_f4)
qed


lemma scan_Cs4: "fst (scanOctaves exampleEnv (octaveFour 61 61) [4] w) = None"
proof -
  have "fst (scanLetters exampleEnv (octaveFour 61 61) 4 baseNotes w) = None"
    by (simp add: baseNotes_def case_prod_beta Let_def select_example noteKey_four strnum_example
          heights4 inRange_def octaveFour_def)
  then show ?thesis by (simp add: case_prod_beta split: option.splits)
qed


lemma pick_Cs4:
  "fst (pickNote exampleEnv (octaveFour 61 61) w) = (4, \<lparr>sel_note = ''c'', sel_accidental = None\<rparr>)"
proof -
  have v: "validOctaves (octaveFour 61 61) = [4]" by (simp add: octaveFour_def)
  have c: "baseNotes ! 0 = ''c''" by (simp add: baseNotes_def)
  show ?thesis
    using attempt_example[of 61 61 50] scan_Cs4
    by (simp add: pickNote_def case_prod_beta Let_def v c select_example
          del: attempt.simps scanOctaves.simps split: option.splits)
qed

lemma generate_example:
  assumes cf: "settings (Fin 0) lo hi = octaveFour l h"
    and pick: "\<And>w. fst (pickNote exampleEnv (octaveFour l h) w)
                 = (4, \<lparr>sel_note = [c], sel_accidental = None\<rparr>)"
  shows "generateMeasures exampleEnv ''C'' (Fin 1) ''1/8'' (Fin 0) lo hi
         = Inr [[\<lparr>NoteSpec.key = [c, CHR ''/'', CHR ''4''], accidental = None, duration = D8,
                  isRest = False\<rparr>]]"
proof -
  have r: "restChance (octaveFour l h) = Fin (3602879701896397 / 9007199254740992)"
    by (simp add: octaveFour_def)
  have ev: "fst (makeEvent exampleEnv (octaveFour l h)
                   [\<lparr>PoolEntry.duration = D8, beats = 1 / 2, eighths = 1\<rparr>] w)
            = (\<lparr>PoolEntry.duration = D8, beats = 1 / 2, eighths = 1\<rparr>,
               \<lparr>NoteSpec.key = [c, CHR ''/'', CHR ''4''], accidental = None, duration = D8,
                isRest = False\<rparr>)" for w
    by (simp add: makeEvent_def Let_def case_prod_beta weightedChoice_single pick random_example
          noteKey_four num_lt_def r)
  have a: "filter (\<lambda>d. eighths d \<le> 1) durationPool
           = [\<lparr>PoolEntry.duration = D8, beats = 1 / 2, eighths = 1\<rparr>]"
    by (simp add: durationPool_def)
  have f: "fst (fill exampleEnv (octaveFour l h) 1 [] w)
           = [\<lparr>NoteSpec.key = [c, CHR ''/'', CHR ''4''], accidental = None, duration = D8,
                isRest = False\<rparr>]" for w
    using fill_step[of 1 exampleEnv "octaveFour l h" "[]" w] by (simp add: a ev fill_done)
  have p: "eighthsPerMeasure (parseTimeSignature ''1/8'') = Fin 1" by code_simp
  have k: "newKeyManager exampleEnv ''C'' = Some ()" by (simp add: exampleEnv_def)
  have n: "rounds (Fin 1) = Some (Suc 0)" by (simp add: rounds_def)
  show ?thesis
    by (simp add: generateMeasures_def k n cf p f case_prod_beta)
qed


text \<open>
  Between \<open>C#4\<close> and \<open>C#4\<close> no natural note fits, and the event is \<open>c/4\<close>, of height 60,
  below the range.
\<close>

lemma generate_Cs4:
  "generateMeasures exampleEnv ''C'' (Fin 1) ''1/8'' (Fin 0) (Some ''C#4'') (Some ''C#4'')
   = Inr [[\<lparr>NoteSpec.key = ''c/4'', accidental = None, duration = D8, isRest = False\<rparr>]]"
  using generate_example[OF settings_Cs4, of "CHR ''c''"] pick_Cs4 by simp

lemma fallback_out_of_range:
  "eventHeight exampleEnv \<lparr>NoteSpec.key = ''c/4'', accidental = None, duration = D8, isRest = False\<rparr>
   = Fin 60"
  by (simp add: eventHeight_def strnum_example height_c4)




end
